theory Spec2Isabelle
  imports Complex_Main "HOL-Library.Word"
begin

section \<open>Common data\<close>

text \<open>
  The C++ sources compute on \<^verbatim>\<open>double\<close>. The embedding takes the values in \<^typ>\<open>real\<close>:
  rounding, infinities and NaN are outside the model, and HOL evaluates a division by
  zero to zero where IEEE arithmetic gives an infinity or NaN. A dense Eigen
  vector (\<^verbatim>\<open>V\<close>) is a list of reals. C++ \<^verbatim>\<open>int\<close> values are taken in \<^typ>\<open>int\<close>, so
  their overflow, which C++ leaves undefined, is outside the model; the
  \<^verbatim>\<open>unsigned int\<close> counters of the solver are 32-bit words, whose addition wraps.
\<close>

type_synonym V = "real list"

text \<open>
  Ways in which a call ends other than by returning. \<open>AssertionFailed\<close> is a failed
  assertion: an \<^verbatim>\<open>assert\<close> of this repository, or the range assertion that Eigen's
  \<^verbatim>\<open>block()\<close> carries, both active in the same builds. \<open>RuntimeError\<close> is an exception
  raised by \<^verbatim>\<open>THROW\<close> or \<^verbatim>\<open>OPM_THROW\<close>. \<open>OutOfRange\<close> is an element read outside a
  container through an access that carries no check (\<^verbatim>\<open>operator[]\<close> of a
  \<^verbatim>\<open>std::vector\<close>, a view of a plain array), which C++ leaves undefined. \<open>SizeMismatch\<close>
  is an elementwise or matrix operation on operands whose sizes disagree.
\<close>

datatype error = AssertionFailed | RuntimeError string | OutOfRange | SizeMismatch

section \<open>NewtonSolver\<close>

subsection \<open>Relaxation of the Newton update\<close>

datatype RelaxType = DAMPEN | SOR

text \<open>
  \<^verbatim>\<open>stabilizeNewton(V& dx, V& dxOld, omega, relax_type)\<close> updates both vectors in place;
  the model returns the pair \<open>(dx, dxOld)\<close> after the call. The \<^verbatim>\<open>default:\<close> arm of the
  switch is unreachable for the two enumerators. The SOR sum is an Eigen elementwise
  sum, which requires operands of equal size.
\<close>

definition stabilizeNewton :: "V \<Rightarrow> V \<Rightarrow> real \<Rightarrow> RelaxType \<Rightarrow> error + (V \<times> V)" where
  "stabilizeNewton dx dxOld omega relax_type =
     (let tempDxOld = dxOld;
          dxOld' = dx
      in case relax_type of
           DAMPEN \<Rightarrow>
             if omega = 1 then Inr (dx, dxOld')
             else Inr (map (\<lambda>x. x * omega) dx, dxOld')
         | SOR \<Rightarrow>
             if omega = 1 then Inr (dx, dxOld')
             else if length dx \<noteq> length tempDxOld then Inl SizeMismatch
             else Inr (map2 (+) (map (\<lambda>x. x * omega) dx)
                                (map (\<lambda>x. (1 - omega) * x) tempDxOld), dxOld'))"

subsection \<open>Oscillation detection\<close>

text \<open>
  The body of the loop over the phases \<open>p = 0, ..., numPhases - 1\<close> of
  \<^verbatim>\<open>detectNewtonOscillations\<close>, with the running values of \<^verbatim>\<open>oscillatePhase\<close> and
  \<^verbatim>\<open>stagnate\<close>. The source indexes the three snapshots with \<^verbatim>\<open>operator[]\<close>.
\<close>

fun detect_phases :: "V \<Rightarrow> V \<Rightarrow> V \<Rightarrow> real \<Rightarrow> nat list \<Rightarrow> int \<Rightarrow> bool \<Rightarrow> error + (int \<times> bool)" where
  "detect_phases F0 F1 F2 relaxRelTol [] oscillatePhase stagnate = Inr (oscillatePhase, stagnate)"
| "detect_phases F0 F1 F2 relaxRelTol (p # ps) oscillatePhase stagnate =
     (if p < length F0 \<and> p < length F1 \<and> p < length F2 then
        (let d1 = \<bar>(F0 ! p - F2 ! p) / F0 ! p\<bar>;
             d2 = \<bar>(F0 ! p - F1 ! p) / F0 ! p\<bar>
         in detect_phases F0 F1 F2 relaxRelTol ps
              (oscillatePhase + (if d1 < relaxRelTol \<and> relaxRelTol < d2 then 1 else 0))
              (stagnate \<and> \<not> (\<bar>(F1 ! p - F2 ! p) / F2 ! p\<bar> > 1 / 1000)))
      else Inl OutOfRange)"

text \<open>
  \<^verbatim>\<open>detectNewtonOscillations(residual_history, it, relaxRelTol, oscillate, stagnate)\<close>;
  the first argument of the model is \<^verbatim>\<open>model_->numPhases()\<close>. The result is the pair
  \<open>(oscillate, stagnate)\<close> written through the two reference parameters.
\<close>

definition detectNewtonOscillations :: "int \<Rightarrow> V list \<Rightarrow> int \<Rightarrow> real \<Rightarrow> error + (bool \<times> bool)" where
  "detectNewtonOscillations numPhases residual_history it relaxRelTol =
     (if it < 2 then Inr (False, False)
      else if nat it < length residual_history then
        (case detect_phases (residual_history ! nat it) (residual_history ! nat (it - 1))
                (residual_history ! nat (it - 2)) relaxRelTol [0..<nat numPhases] 0 True of
           Inl e \<Rightarrow> Inl e
         | Inr (oscillatePhase, stagnate) \<Rightarrow> Inr (oscillatePhase > 1, stagnate))
      else Inl OutOfRange)"

text \<open>
  The detection rule in the words of the specification: with \<open>F0\<close>, \<open>F1\<close>, \<open>F2\<close> the
  residual norms of a phase at the current, previous and two-iterations-ago state,
  \<open>d1 = |F0 - F2| / F0\<close>, \<open>d2 = |F0 - F1| / F0\<close>, and the phase is flagged when
  \<open>d1 < tol < d2\<close>.
\<close>

definition spec_d1 :: "V \<Rightarrow> V \<Rightarrow> nat \<Rightarrow> real" where
  "spec_d1 F0 F2 p = \<bar>F0 ! p - F2 ! p\<bar> / F0 ! p"

definition spec_d2 :: "V \<Rightarrow> V \<Rightarrow> nat \<Rightarrow> real" where
  "spec_d2 F0 F1 p = \<bar>F0 ! p - F1 ! p\<bar> / F0 ! p"

definition spec_phase_flagged :: "V \<Rightarrow> V \<Rightarrow> V \<Rightarrow> real \<Rightarrow> nat \<Rightarrow> bool" where
  "spec_phase_flagged F0 F1 F2 tol p \<longleftrightarrow> spec_d1 F0 F2 p < tol \<and> tol < spec_d2 F0 F1 p"

subsection \<open>The solver and the model it drives\<close>

text \<open>
  Data members are named as in the source without the trailing underscore
  (\<^verbatim>\<open>max_iter_\<close> is \<open>max_iter\<close>, \<^verbatim>\<open>newtonIterations_\<close> is \<open>newtonIterations\<close>).
\<close>

record SolverParameters =
  relax_type :: RelaxType
  relax_max :: real
  relax_increment :: real
  relax_rel_tol :: real
  max_iter :: int
  min_iter :: int

text \<open>\<^verbatim>\<open>SolverParameters::reset()\<close>: the default values.\<close>

definition reset :: SolverParameters where
  "reset = \<lparr>relax_type = DAMPEN, relax_max = 1 / 2, relax_increment = 1 / 10,
            relax_rel_tol = 2 / 10, max_iter = 15, min_iter = 1\<rparr>"

text \<open>
  \<^verbatim>\<open>NewtonSolver\<close> is a template over \<^verbatim>\<open>PhysicalModel\<close>. The model is the set of
  member functions that \<^verbatim>\<open>step\<close> calls, over a state \<open>'w\<close> that stands for everything
  these calls may read or change: the model object behind \<^verbatim>\<open>model_\<close> and the
  \<^verbatim>\<open>reservoir_state\<close> and \<^verbatim>\<open>well_state\<close> passed by reference. A member that may
  change the state returns the new state; the queries only read it. \<^verbatim>\<open>sizeNonLinear\<close>
  dimensions an Eigen vector and is taken as a natural number.
\<close>

record 'w PhysicalModel =
  prepareStep :: "real \<Rightarrow> 'w \<Rightarrow> 'w"
  assemble :: "bool \<Rightarrow> 'w \<Rightarrow> 'w"
  computeResidualNorms :: "'w \<Rightarrow> V"
  getConvergence :: "real \<Rightarrow> int \<Rightarrow> 'w \<Rightarrow> bool \<times> 'w"
  sizeNonLinear :: "'w \<Rightarrow> nat"
  solveJacobianSystem :: "'w \<Rightarrow> V \<times> 'w"
  linearIterationsLastSolve :: "'w \<Rightarrow> int"
  updateState :: "V \<Rightarrow> 'w \<Rightarrow> 'w"
  afterStep :: "real \<Rightarrow> 'w \<Rightarrow> 'w"
  numPhases :: "'w \<Rightarrow> int"

text \<open>
  The calls of state-changing members that \<^verbatim>\<open>step\<close> issues are recorded, in order, so
  that statements about how often the driver solves or assembles can be made.
\<close>

datatype call =
    PrepareStep
  | Assemble bool
  | GetConvergence int
  | SolveJacobianSystem
  | UpdateState V
  | AfterStep

fun is_Assemble :: "call \<Rightarrow> bool" where
  "is_Assemble (Assemble b) = True"
| "is_Assemble c = False"

definition num_assemblies :: "call list \<Rightarrow> nat" where
  "num_assemblies cs = length (filter is_Assemble cs)"

definition num_solves :: "call list \<Rightarrow> nat" where
  "num_solves cs = count_list cs SolveJacobianSystem"

record NewtonSolver =
  param :: SolverParameters
  newtonIterations :: "32 word"
  linearIterations :: "32 word"
  newtonIterationsLast :: "32 word"
  linearIterationsLast :: "32 word"

text \<open>
  The local variables of \<^verbatim>\<open>step\<close> that live across the iterations of its loop. The
  local \<^verbatim>\<open>linearIterations\<close> is the field \<open>linearIterationsUsed\<close>, to keep it apart from the
  member \<^verbatim>\<open>linearIterations_\<close> of the solver.
\<close>

record 'w NewtonLoop =
  world :: 'w
  calls :: "call list"
  residual_norms_history :: "V list"
  omega :: real
  iteration :: int
  converged :: bool
  dxOld :: V
  isOscillate :: bool
  isStagnate :: bool
  linearIterationsUsed :: int

text \<open>
  One pass through the body of the main Newton loop. The messages written to the
  terminal, and the query \<^verbatim>\<open>terminalOutputEnabled\<close> that guards them, are left out.
\<close>

definition newton_body ::
  "SolverParameters \<Rightarrow> 'w PhysicalModel \<Rightarrow> real \<Rightarrow> 'w NewtonLoop \<Rightarrow> error + 'w NewtonLoop" where
  "newton_body P m dt st =
     (let (dx, w1) = solveJacobianSystem m (world st);
          linearIterations' = linearIterationsUsed st + linearIterationsLastSolve m w1
      in case detectNewtonOscillations (numPhases m w1) (residual_norms_history st)
                (iteration st) (relax_rel_tol P) of
           Inl e \<Rightarrow> Inl e
         | Inr (oscillate, stagnate) \<Rightarrow>
             (let omega' = (if oscillate then max (omega st - relax_increment P) (relax_max P)
                            else omega st)
              in case stabilizeNewton dx (dxOld st) omega' (relax_type P) of
                   Inl e \<Rightarrow> Inl e
                 | Inr (dx', dxOld') \<Rightarrow>
                     (let w2 = updateState m dx' w1;
                          w3 = assemble m False w2;
                          iteration' = iteration st + 1;
                          (conv, w4) = getConvergence m dt iteration' w3
                      in Inr \<lparr>world = w4,
                              calls = calls st @ [SolveJacobianSystem, UpdateState dx',
                                                  Assemble False, GetConvergence iteration'],
                              residual_norms_history =
                                residual_norms_history st @ [computeResidualNorms m w3],
                              omega = omega',
                              iteration = iteration',
                              converged = conv,
                              dxOld = dxOld',
                              isOscillate = oscillate,
                              isStagnate = stagnate,
                              linearIterationsUsed = linearIterations'\<rparr>)))"

text \<open>
  The main Newton loop:
  \<^verbatim>\<open>while ((!converged && (iteration < maxIter())) || (minIter() > iteration))\<close>.
  The accessors \<^verbatim>\<open>maxIter()\<close> and \<^verbatim>\<open>minIter()\<close> return the two \<^verbatim>\<open>int\<close> parameters
  converted to \<^verbatim>\<open>double\<close>, which is exact, so the comparisons are those of the integers.
\<close>

function newton_loop ::
  "SolverParameters \<Rightarrow> 'w PhysicalModel \<Rightarrow> real \<Rightarrow> 'w NewtonLoop \<Rightarrow> error + 'w NewtonLoop" where
  "newton_loop P m dt st =
     (if (\<not> converged st \<and> iteration st < max_iter P) \<or> min_iter P > iteration st then
        (case newton_body P m dt st of
           Inl e \<Rightarrow> Inl e
         | Inr st' \<Rightarrow> newton_loop P m dt st')
      else Inr st)"
  by pat_completeness auto
termination
  by (relation "measure (\<lambda>(P, m, dt, st). nat (max (max_iter P) (min_iter P) - iteration st))")
     (auto simp: newton_body_def Let_def split: prod.splits sum.splits)

text \<open>
  The part of \<^verbatim>\<open>step\<close> before the loop: the once-per-step preparation, the initial
  assembly, the first snapshot of the residual norms and the set-up of the locals.
\<close>

definition newton_init :: "'w PhysicalModel \<Rightarrow> real \<Rightarrow> 'w \<Rightarrow> 'w NewtonLoop" where
  "newton_init m dt w =
     (let w1 = prepareStep m dt w;
          w2 = assemble m True w1;
          (conv, w3) = getConvergence m dt 0 w2
      in \<lparr>world = w3,
          calls = [PrepareStep, Assemble True, GetConvergence 0],
          residual_norms_history = [computeResidualNorms m w2],
          omega = 1,
          iteration = 0,
          converged = conv,
          dxOld = replicate (sizeNonLinear m w3) 0,
          isOscillate = False,
          isStagnate = False,
          linearIterationsUsed = 0\<rparr>)"

text \<open>
  \<^verbatim>\<open>NewtonSolver::step(dt, reservoir_state, well_state)\<close>. The result is the returned
  \<^verbatim>\<open>int\<close>, the solver object, the state of the model and the calls issued. The
  \<^verbatim>\<open>+=\<close> on the \<^verbatim>\<open>unsigned int\<close> members converts the \<^verbatim>\<open>int\<close> operand and wraps.
\<close>

definition step ::
  "NewtonSolver \<Rightarrow> 'w PhysicalModel \<Rightarrow> real \<Rightarrow> 'w \<Rightarrow> error + (int \<times> NewtonSolver \<times> 'w \<times> call list)" where
  "step s m dt w =
     (case newton_loop (param s) m dt (newton_init m dt w) of
        Inl e \<Rightarrow> Inl e
      | Inr st \<Rightarrow>
          if \<not> converged st then Inr (- 1, s, world st, calls st)
          else Inr (linearIterationsUsed st,
                    s\<lparr>newtonIterations := newtonIterations s + word_of_int (iteration st),
                      linearIterations := linearIterations s + word_of_int (linearIterationsUsed st),
                      newtonIterationsLast := word_of_int (iteration st),
                      linearIterationsLast := word_of_int (linearIterationsUsed st)\<rparr>,
                    afterStep m dt (world st),
                    calls st @ [AfterStep]))"

subsection \<open>Invariant of the loop and test fixtures\<close>

text \<open>
  What holds of the locals of \<^verbatim>\<open>step\<close> at the head of the loop: one snapshot per
  completed iteration besides the initial one, every snapshot with an entry for every
  phase, and (for SOR) a previous update of the size of the updates the model returns.
\<close>

definition loop_inv :: "SolverParameters \<Rightarrow> 'w PhysicalModel \<Rightarrow> 'w NewtonLoop \<Rightarrow> bool" where
  "loop_inv P m st \<longleftrightarrow>
     0 \<le> iteration st \<and>
     length (residual_norms_history st) = nat (iteration st) + 1 \<and>
     (\<forall>F \<in> set (residual_norms_history st). \<forall>w. numPhases m w \<le> int (length F)) \<and>
     (relax_type P = SOR \<longrightarrow> (\<forall>w. length (fst (solveJacobianSystem m w)) = length (dxOld st)))"

text \<open>The model returns residual-norm vectors with an entry for every phase.\<close>

definition wf_norms :: "'w PhysicalModel \<Rightarrow> bool" where
  "wf_norms m \<longleftrightarrow> (\<forall>w w'. numPhases m w \<le> int (length (computeResidualNorms m w')))"

declare newton_loop.simps [simp del]

text \<open>
  A model for test runs, over a trivial state: it reports convergence at iteration \<open>it\<close>
  when \<open>conv it\<close> holds, returns the update \<open>[1]\<close> for a single unknown, one residual
  norm for its single phase, and \<open>lin\<close> linear iterations for every solve.
\<close>

definition mock_model :: "(int \<Rightarrow> bool) \<Rightarrow> int \<Rightarrow> unit PhysicalModel" where
  "mock_model conv lin =
     \<lparr>prepareStep = (\<lambda>dt w. w),
      assemble = (\<lambda>initial w. w),
      computeResidualNorms = (\<lambda>w. [1]),
      getConvergence = (\<lambda>dt it w. (conv it, w)),
      sizeNonLinear = (\<lambda>w. 1),
      solveJacobianSystem = (\<lambda>w. ([1], w)),
      linearIterationsLastSolve = (\<lambda>w. lin),
      updateState = (\<lambda>dx w. w),
      afterStep = (\<lambda>dt w. w),
      numPhases = (\<lambda>w. 1)\<rparr>"

text \<open>
  The constructor \<^verbatim>\<open>NewtonSolver(param, model)\<close> sets the two cumulative counters to
  zero and leaves \<^verbatim>\<open>newtonIterationsLast_\<close> and \<^verbatim>\<open>linearIterationsLast_\<close> uninitialised:
  their values are the two extra arguments.
\<close>

definition NewtonSolver_init :: "SolverParameters \<Rightarrow> 32 word \<Rightarrow> 32 word \<Rightarrow> NewtonSolver" where
  "NewtonSolver_init P l1 l2 =
     \<lparr>param = P, newtonIterations = 0, linearIterations = 0,
      newtonIterationsLast = l1, linearIterationsLast = l2\<rparr>"

section \<open>Automatic-differentiation blocks\<close>

text \<open>
  A sparse Eigen matrix (\<^verbatim>\<open>M\<close>) is its number of rows, its number of columns and its
  coefficient at every position; positions that hold no stored entry have the
  coefficient zero. Only the coefficients inside the shape are meaningful.
\<close>

record M =
  rows :: nat
  cols :: nat
  coeff :: "nat \<Rightarrow> nat \<Rightarrow> real"

text \<open>\<^verbatim>\<open>M(n, m)\<close>: the matrix of the given shape without stored entries.\<close>

definition zero_M :: "nat \<Rightarrow> nat \<Rightarrow> M" where
  "zero_M n m = \<lparr>rows = n, cols = m, coeff = (\<lambda>i j. 0)\<rparr>"

definition identity_M :: "nat \<Rightarrow> M" where
  "identity_M n = \<lparr>rows = n, cols = n, coeff = (\<lambda>i j. if i = j then 1 else 0)\<rparr>"

text \<open>
  Modelled from the spec: \<^verbatim>\<open>spdiag\<close> (\<^verbatim>\<open>AutoDiffHelpers.hpp\<close>) is not among the sources
  at hand. It is the "promotion of a plain vector to a diagonal sparse matrix".
\<close>

definition spdiag :: "V \<Rightarrow> M" where
  "spdiag d = \<lparr>rows = length d, cols = length d,
               coeff = (\<lambda>i j. if i = j \<and> i < length d then d ! i else 0)\<rparr>"

text \<open>Entrywise sum and difference, the product \<open>diag(d) * A\<close> and the matrix product.\<close>

definition add_M :: "M \<Rightarrow> M \<Rightarrow> M" where
  "add_M A B = \<lparr>rows = rows A, cols = cols A, coeff = (\<lambda>i j. coeff A i j + coeff B i j)\<rparr>"

definition sub_M :: "M \<Rightarrow> M \<Rightarrow> M" where
  "sub_M A B = \<lparr>rows = rows A, cols = cols A, coeff = (\<lambda>i j. coeff A i j - coeff B i j)\<rparr>"

definition diag_mul :: "V \<Rightarrow> M \<Rightarrow> M" where
  "diag_mul d A = \<lparr>rows = rows A, cols = cols A, coeff = (\<lambda>i j. d ! i * coeff A i j)\<rparr>"

definition mul_M :: "M \<Rightarrow> M \<Rightarrow> M" where
  "mul_M A B = \<lparr>rows = rows A, cols = cols B,
                coeff = (\<lambda>i j. sum_list (map (\<lambda>k. coeff A i k * coeff B k j) [0..<cols A]))\<rparr>"

definition mul_MV :: "M \<Rightarrow> V \<Rightarrow> V" where
  "mul_MV A v = map (\<lambda>i. sum_list (map (\<lambda>k. coeff A i k * v ! k) [0..<cols A])) [0..<rows A]"

definition gather_M :: "nat list \<Rightarrow> M \<Rightarrow> M" where
  "gather_M idx A = \<lparr>rows = length idx, cols = cols A,
                     coeff = (\<lambda>i j. if i < length idx then coeff A (idx ! i) j else 0)\<rparr>"

text \<open>
  Modelled from the spec: the class \<^verbatim>\<open>AutoDiff::ForwardBlock\<close> (\<^verbatim>\<open>AutoDiffBlock.hpp\<close>) is
  not among the sources at hand. An AD quantity is a value vector of length \<open>n\<close> with
  one Jacobian block of shape \<open>n \<times> m\<^sub>i\<close> per block of the pattern \<open>(m\<^sub>1, m\<^sub>2, ...)\<close>.
\<close>

record ADB =
  val :: V
  jac :: "M list"

text \<open>Modelled from the spec: \<^verbatim>\<open>ADB::null()\<close>, the quantity without entries and blocks.\<close>

definition ADB_null :: ADB where
  "ADB_null = \<lparr>val = [], jac = []\<rparr>"

text \<open>Modelled from the spec: \<^verbatim>\<open>numBlocks()\<close>, the number of Jacobian blocks.\<close>

definition numBlocks :: "ADB \<Rightarrow> nat" where
  "numBlocks a = length (jac a)"

text \<open>Modelled from the spec: \<^verbatim>\<open>blockPattern()\<close>, the column counts of the blocks.\<close>

definition blockPattern :: "ADB \<Rightarrow> nat list" where
  "blockPattern a = map cols (jac a)"

text \<open>
  Modelled from the spec: \<^verbatim>\<open>ADB::constant(value, pattern)\<close>, "value given, all Jacobian
  blocks are the zero matrix of correct shape".
\<close>

definition ADB_constant :: "V \<Rightarrow> nat list \<Rightarrow> ADB" where
  "ADB_constant v bpat = \<lparr>val = v, jac = map (zero_M (length v)) bpat\<rparr>"

text \<open>
  Modelled from the spec: a variable, "value given, Jacobian is the identity matrix for
  its own block and zero for all others"; \<open>i\<close> is the index of its own block.
\<close>

definition ADB_variable :: "nat \<Rightarrow> V \<Rightarrow> nat list \<Rightarrow> ADB" where
  "ADB_variable i v bpat =
     \<lparr>val = v,
      jac = map (\<lambda>j. if j = i then identity_M (length v) else zero_M (length v) (bpat ! j))
                [0..<length bpat]\<rparr>"

text \<open>
  Modelled from the spec: \<^verbatim>\<open>ADB::variables(value_list)\<close>, the "joint set of ADQs, one per
  entry in \<open>value_list\<close>, each a variable against its own block within a single shared
  pattern", the pattern being the sizes of the entries.
\<close>

definition ADB_variables :: "V list \<Rightarrow> ADB list" where
  "ADB_variables initial_values =
     map (\<lambda>i. ADB_variable i (initial_values ! i) (map length initial_values))
         [0..<length initial_values]"

text \<open>
  Modelled from the spec: \<^verbatim>\<open>ADB::function(value, jacobian_blocks)\<close>, "value and Jacobian
  blocks supplied explicitly"; every block has one row per entry of the value.
\<close>

definition ADB_function :: "V \<Rightarrow> M list \<Rightarrow> error + ADB" where
  "ADB_function v js =
     (if \<forall>J \<in> set js. rows J = length v then Inr \<lparr>val = v, jac = js\<rparr>
      else Inl AssertionFailed)"

text \<open>
  Modelled from the spec: the shape agreement that every binary operation checks. Both
  operands are well shaped, of the same length and of the same block pattern; a
  mismatch "is a programming-contract violation: fail fast (abort/assert)".
\<close>

definition compatible :: "ADB \<Rightarrow> ADB \<Rightarrow> bool" where
  "compatible a b \<longleftrightarrow>
     length (val a) = length (val b) \<and>
     (\<forall>J \<in> set (jac a). rows J = length (val a)) \<and>
     (\<forall>J \<in> set (jac b). rows J = length (val b)) \<and>
     blockPattern a = blockPattern b"

text \<open>
  Modelled from the spec: elementwise sum; the values are added entry by entry and the
  Jacobians block by block.
\<close>

definition ADB_add :: "ADB \<Rightarrow> ADB \<Rightarrow> error + ADB" where
  "ADB_add a b =
     (if compatible a b
      then Inr \<lparr>val = map2 (+) (val a) (val b), jac = map2 add_M (jac a) (jac b)\<rparr>
      else Inl AssertionFailed)"

text \<open>Modelled from the spec: elementwise difference.\<close>

definition ADB_sub :: "ADB \<Rightarrow> ADB \<Rightarrow> error + ADB" where
  "ADB_sub a b =
     (if compatible a b
      then Inr \<lparr>val = map2 (-) (val a) (val b), jac = map2 sub_M (jac a) (jac b)\<rparr>
      else Inl AssertionFailed)"

text \<open>
  Modelled from the spec: elementwise product, with the product rule
  \<open>d(a b) = diag(b) da + diag(a) db\<close> on every block.
\<close>

definition ADB_mul :: "ADB \<Rightarrow> ADB \<Rightarrow> error + ADB" where
  "ADB_mul a b =
     (if compatible a b
      then Inr \<lparr>val = map2 (\<lambda>x y. x * y) (val a) (val b),
                jac = map2 (\<lambda>Ja Jb. add_M (diag_mul (val b) Ja) (diag_mul (val a) Jb))
                           (jac a) (jac b)\<rparr>
      else Inl AssertionFailed)"

text \<open>
  Modelled from the spec: elementwise quotient, with the quotient rule
  \<open>d(a / b) = diag(1 / b\<^sup>2) (diag(b) da - diag(a) db)\<close> on every block; for a constant
  numerator \<open>1\<close> this is the reciprocal rule \<open>d(1 / f) = - df / f\<^sup>2\<close>.
\<close>

definition ADB_div :: "ADB \<Rightarrow> ADB \<Rightarrow> error + ADB" where
  "ADB_div a b =
     (if compatible a b
      then Inr \<lparr>val = map2 (/) (val a) (val b),
                jac = map2 (\<lambda>Ja Jb. diag_mul (map (\<lambda>x. 1 / (x * x)) (val b))
                                      (sub_M (diag_mul (val b) Ja) (diag_mul (val a) Jb)))
                           (jac a) (jac b)\<rparr>
      else Inl AssertionFailed)"

text \<open>
  Modelled from the spec: the sum of a plain vector and an AD quantity; the vector is
  the constant of the other operand's pattern.
\<close>

definition V_add_ADB :: "V \<Rightarrow> ADB \<Rightarrow> error + ADB" where
  "V_add_ADB v a = ADB_add (ADB_constant v (blockPattern a)) a"

text \<open>Modelled from the spec: the sum of an AD quantity and a plain vector.\<close>

definition ADB_add_V :: "ADB \<Rightarrow> V \<Rightarrow> error + ADB" where
  "ADB_add_V a v = ADB_add a (ADB_constant v (blockPattern a))"

text \<open>Modelled from the spec: a plain vector minus an AD quantity.\<close>

definition V_sub_ADB :: "V \<Rightarrow> ADB \<Rightarrow> error + ADB" where
  "V_sub_ADB v a = ADB_sub (ADB_constant v (blockPattern a)) a"

text \<open>Modelled from the spec: a plain vector times an AD quantity, elementwise.\<close>

definition V_mul_ADB :: "V \<Rightarrow> ADB \<Rightarrow> error + ADB" where
  "V_mul_ADB v a = ADB_mul (ADB_constant v (blockPattern a)) a"

text \<open>Modelled from the spec: a plain vector divided by an AD quantity, elementwise.\<close>

definition V_div_ADB :: "V \<Rightarrow> ADB \<Rightarrow> error + ADB" where
  "V_div_ADB v a = ADB_div (ADB_constant v (blockPattern a)) a"

text \<open>
  Modelled from the spec: a matrix applied from the left (a discrete operator or a
  selection) acts on the value and on every Jacobian block.
\<close>

definition M_mul_ADB :: "M \<Rightarrow> ADB \<Rightarrow> error + ADB" where
  "M_mul_ADB A a =
     (if cols A = length (val a) \<and> (\<forall>J \<in> set (jac a). rows J = length (val a))
      then Inr \<lparr>val = mul_MV A (val a), jac = map (mul_M A) (jac a)\<rparr>
      else Inl AssertionFailed)"

text \<open>Modelled from the spec: the row subset (gather) of a vector by an index list.\<close>

definition subset_V :: "V \<Rightarrow> nat list \<Rightarrow> error + V" where
  "subset_V v idx =
     (if \<forall>i \<in> set idx. i < length v then Inr (map ((!) v) idx) else Inl OutOfRange)"

text \<open>Modelled from the spec: the row subset (gather) of an AD quantity by an index list.\<close>

definition subset_ADB :: "ADB \<Rightarrow> nat list \<Rightarrow> error + ADB" where
  "subset_ADB a idx =
     (if (\<forall>i \<in> set idx. i < length (val a)) \<and> (\<forall>J \<in> set (jac a). rows J = length (val a))
      then Inr \<lparr>val = map ((!) (val a)) idx, jac = map (gather_M idx) (jac a)\<rparr>
      else Inl OutOfRange)"

text \<open>Sequencing of calls that may fail: the first failure ends the computation.\<close>

definition and_then :: "error + 'a \<Rightarrow> ('a \<Rightarrow> error + 'b) \<Rightarrow> error + 'b" where
  "and_then r f = (case r of Inl e \<Rightarrow> Inl e | Inr x \<Rightarrow> f x)"

section \<open>ImpesTPFAAD\<close>

subsection \<open>Collaborators\<close>

text \<open>
  The state containers, the grid, the geometry, the wells, the fluid, the discrete
  operators, the upwind selector and the linear solver are declared outside the
  sources at hand. They are taken as parameters, with the members that the assembler
  reads. Counts of cells and wells are natural numbers. A fluid member that fills an
  output array is the function from the position in the array to the value written.
\<close>

record BlackoilState =
  pressure :: V
  surfacevol :: V
  saturation :: V
  state_numPhases :: int

record WellState =
  bhp :: V

record UnstructuredGrid =
  number_of_cells :: nat

record GeoProps =
  poreVolume :: V
  transmissibility :: V

record Wells =
  number_of_wells :: nat
  well_connpos :: "nat list"
  well_cells :: "nat list"

record BOFluid =
  fluid_numPhases :: int
  relperm :: "nat \<Rightarrow> V \<Rightarrow> nat list \<Rightarrow> nat \<Rightarrow> real"
  matrix :: "nat \<Rightarrow> V \<Rightarrow> V \<Rightarrow> nat list \<Rightarrow> (nat \<Rightarrow> real) \<times> (nat \<Rightarrow> real)"
  viscosity :: "nat \<Rightarrow> V \<Rightarrow> V \<Rightarrow> nat list \<Rightarrow> nat \<Rightarrow> real"

text \<open>
  \<^verbatim>\<open>HelperOps\<close>: the discrete gradient and divergence over the internal faces and the list
  of internal faces. \<open>ops_div\<close> is the member \<^verbatim>\<open>div\<close>.
\<close>

record HelperOps =
  ngrad :: M
  ops_div :: M
  internal_faces :: "nat list"

subsection \<open>PressureDependentFluidData\<close>

text \<open>
  \<^verbatim>\<open>DerivedQuant\<close> is a dense row-major Eigen array: its shape and its entries, row after
  row. \<^verbatim>\<open>Q.block(0, startCol, blockRows, 1)\<close> is a column of the leading rows; Eigen
  asserts that the block lies inside the array.
\<close>

record DerivedQuant =
  dq_rows :: nat
  dq_cols :: nat
  dq_data :: V

definition DerivedQuant_fill :: "nat \<Rightarrow> nat \<Rightarrow> (nat \<Rightarrow> real) \<Rightarrow> DerivedQuant" where
  "DerivedQuant_fill r c f = \<lparr>dq_rows = r, dq_cols = c, dq_data = map f [0..<r * c]\<rparr>"

definition block_col :: "DerivedQuant \<Rightarrow> int \<Rightarrow> nat \<Rightarrow> error + V" where
  "block_col Q startCol blockRows =
     (if 0 \<le> startCol \<and> nat startCol < dq_cols Q \<and> blockRows \<le> dq_rows Q
      then Inr (map (\<lambda>i. dq_data Q ! (i * dq_cols Q + nat startCol)) [0..<blockRows])
      else Inl AssertionFailed)"

text \<open>
  The members of \<^verbatim>\<open>PressureDependentFluidData\<close> carry the prefix \<open>pd_\<close> in place of the
  trailing underscore (\<^verbatim>\<open>np_\<close> is \<open>pd_np\<close>, \<^verbatim>\<open>A_\<close> is \<open>pd_A\<close>).
\<close>

record PressureDependentFluidData =
  pd_nc :: nat
  pd_np :: int
  pd_cells :: "nat list"
  pd_fluid :: BOFluid
  pd_A :: DerivedQuant
  pd_dA :: DerivedQuant
  pd_mu :: DerivedQuant
  pd_dmu :: DerivedQuant
  pd_kr :: DerivedQuant
  pd_zero :: V
  pd_one :: V

definition buildAllCells :: "nat \<Rightarrow> nat list" where
  "buildAllCells nc = [0..<nc]"

text \<open>
  The constructor. The five arrays are allocated with their shapes and not
  initialised; what they hold until they are first filled is the argument \<open>junk\<close>.
\<close>

definition PressureDependentFluidData_init ::
  "nat \<Rightarrow> BOFluid \<Rightarrow> (nat \<Rightarrow> real) \<Rightarrow> PressureDependentFluidData" where
  "PressureDependentFluidData_init nc fluid junk =
     (let np = fluid_numPhases fluid
      in \<lparr>pd_nc = nc, pd_np = np, pd_cells = buildAllCells nc, pd_fluid = fluid,
          pd_A = DerivedQuant_fill nc (nat (np * np)) junk,
          pd_dA = DerivedQuant_fill nc (nat (np * np)) junk,
          pd_mu = DerivedQuant_fill nc (nat np) junk,
          pd_dmu = DerivedQuant_fill nc (nat np) junk,
          pd_kr = DerivedQuant_fill nc (nat np) junk,
          pd_zero = replicate nc 0,
          pd_one = replicate nc 1\<rparr>)"

definition computeSatQuant ::
  "BlackoilState \<Rightarrow> PressureDependentFluidData \<Rightarrow> error + PressureDependentFluidData" where
  "computeSatQuant state d =
     (let s = saturation state
      in if int (length s) \<noteq> int (pd_nc d) * pd_np d then Inl AssertionFailed
         else Inr (d\<lparr>pd_kr := DerivedQuant_fill (dq_rows (pd_kr d)) (dq_cols (pd_kr d))
                              (relperm (pd_fluid d) (pd_nc d) s (pd_cells d))\<rparr>))"

definition computePressQuant ::
  "BlackoilState \<Rightarrow> PressureDependentFluidData \<Rightarrow> error + PressureDependentFluidData" where
  "computePressQuant state d =
     (let p = pressure state;
          z = surfacevol state
      in if int (length p) \<noteq> int (pd_nc d) * 1 then Inl AssertionFailed
         else if int (length z) \<noteq> int (pd_nc d) * pd_np d then Inl AssertionFailed
         else
           (let (A, dA) = matrix (pd_fluid d) (pd_nc d) p z (pd_cells d);
                mu = viscosity (pd_fluid d) (pd_nc d) p z (pd_cells d)
            in Inr (d\<lparr>pd_A := DerivedQuant_fill (dq_rows (pd_A d)) (dq_cols (pd_A d)) A,
                      pd_dA := DerivedQuant_fill (dq_rows (pd_dA d)) (dq_cols (pd_dA d)) dA,
                      pd_mu := DerivedQuant_fill (dq_rows (pd_mu d)) (dq_cols (pd_mu d)) mu\<rparr>)))"

definition fvf :: "PressureDependentFluidData \<Rightarrow> int \<Rightarrow> ADB \<Rightarrow> error + ADB" where
  "fvf d phase p =
     (if \<not> 0 \<le> phase then Inl AssertionFailed
      else if \<not> phase < pd_np d then Inl AssertionFailed
      else
        and_then (block_col (pd_A d) (phase * (pd_np d + 1)) (pd_nc d)) (\<lambda>A.
        and_then (block_col (pd_dA d) (phase * (pd_np d + 1)) (pd_nc d)) (\<lambda>dA.
          if numBlocks p \<noteq> 2 then Inl AssertionFailed
          else
            (let jac0 = spdiag dA
             in if cols jac0 \<noteq> blockPattern p ! 0 then Inl AssertionFailed
                else
                  (let jac1 = zero_M (length A) (blockPattern p ! 1)
                   in and_then (ADB_function A [jac0, jac1]) (\<lambda>f.
                        V_div_ADB (pd_one d) f))))))"

definition phaseRelPerm :: "PressureDependentFluidData \<Rightarrow> int \<Rightarrow> error + V" where
  "phaseRelPerm d phase = block_col (pd_kr d) phase (pd_nc d)"

definition phaseViscosity :: "PressureDependentFluidData \<Rightarrow> int \<Rightarrow> ADB \<Rightarrow> error + ADB" where
  "phaseViscosity d phase p =
     (if \<not> 0 \<le> phase then Inl AssertionFailed
      else if \<not> phase < pd_np d then Inl AssertionFailed
      else
        and_then (block_col (pd_mu d) phase (pd_nc d)) (\<lambda>mu.
        and_then (block_col (pd_dmu d) phase (pd_nc d)) (\<lambda>dmu.
          if numBlocks p \<noteq> 2 then Inl AssertionFailed
          else
            (let jac0 = spdiag dmu
             in if cols jac0 \<noteq> blockPattern p ! 0 then Inl AssertionFailed
                else
                  (let jac1 = zero_M (length mu) (blockPattern p ! 1)
                   in ADB_function mu [jac0, jac1])))))"

subsection \<open>The assembler\<close>

text \<open>
  The members of \<^verbatim>\<open>ImpesTPFAAD\<close>, named without the trailing underscore. The linear
  solver receives the system size, the matrix and the right-hand side, and returns
  its convergence flag with the entries it writes into the solution buffer.
  The member \<open>UpwindSelector\<close> is not in the class: it stands for the class of that
  name (\<^verbatim>\<open>AutoDiffHelpers.hpp\<close>), which \<^verbatim>\<open>assemble\<close> builds from the grid, the operators and
  the face fluxes. It is taken as a parameter, the selection matrix for given fluxes
  ("per-face upwind donor cell from the sign"), and \<^verbatim>\<open>select\<close> is the product with it.
\<close>

record ImpesTPFAAD =
  grid :: UnstructuredGrid
  geo :: GeoProps
  wells :: Wells
  linsolver :: "nat \<Rightarrow> M \<Rightarrow> V \<Rightarrow> bool \<times> (nat \<Rightarrow> real)"
  pdepfdata :: PressureDependentFluidData
  ops :: HelperOps
  UpwindSelector :: "V \<Rightarrow> M"
  cell_residual :: ADB
  well_residual :: ADB

text \<open>The constructor: both residuals start as the null quantity.\<close>

definition ImpesTPFAAD_init ::
  "UnstructuredGrid \<Rightarrow> BOFluid \<Rightarrow> GeoProps \<Rightarrow> Wells \<Rightarrow> (nat \<Rightarrow> M \<Rightarrow> V \<Rightarrow> bool \<times> (nat \<Rightarrow> real)) \<Rightarrow>
   HelperOps \<Rightarrow> (V \<Rightarrow> M) \<Rightarrow> (nat \<Rightarrow> real) \<Rightarrow> ImpesTPFAAD" where
  "ImpesTPFAAD_init g fluid ge w ls hops upw junk =
     \<lparr>grid = g, geo = ge, wells = w, linsolver = ls,
      pdepfdata = PressureDependentFluidData_init (number_of_cells g) fluid junk,
      ops = hops, UpwindSelector = upw,
      cell_residual = ADB_null, well_residual = ADB_null\<rparr>"

text \<open>
  The matrix that maps wells to perforations: one row per perforation, one column per
  well, a one where the perforation belongs to the well.
\<close>

definition well_to_perf_M :: "nat \<Rightarrow> nat \<Rightarrow> nat list \<Rightarrow> error + M" where
  "well_to_perf_M nperf nw connpos =
     (if list_all (\<lambda>w. connpos ! w < connpos ! (w + 1) \<longrightarrow> connpos ! (w + 1) \<le> nperf) [0..<nw]
      then Inr \<lparr>rows = nperf, cols = nw,
                coeff = (\<lambda>perf w. if w < nw \<and> connpos ! w \<le> perf \<and> perf < connpos ! (w + 1)
                                    then 1 else 0)\<rparr>
      else Inl OutOfRange)"

text \<open>Column \<open>phase\<close> of the \<open>nc \<times> np\<close> row-major view of a plain array.\<close>

definition map_col :: "V \<Rightarrow> nat \<Rightarrow> int \<Rightarrow> int \<Rightarrow> error + V" where
  "map_col xs nc np phase =
     (if 0 \<le> phase \<and> phase < np \<and> nc * nat np \<le> length xs
      then Inr (map (\<lambda>c. xs ! (c * nat np + nat phase)) [0..<nc])
      else Inl OutOfRange)"

text \<open>
  The body of the loop over the phases in \<^verbatim>\<open>assemble\<close>: the contribution of one phase
  is subtracted from the running cell residual.
\<close>

definition assemble_phase ::
  "ImpesTPFAAD \<Rightarrow> BlackoilState \<Rightarrow> V \<Rightarrow> ADB \<Rightarrow> ADB \<Rightarrow> M \<Rightarrow> int \<Rightarrow> ADB \<Rightarrow> error + ADB" where
  "assemble_phase s state delta_t p nkgradp upwind phase residual =
     (let pv = poreVolume (geo s);
          nc = number_of_cells (grid s);
          np = state_numPhases state
      in and_then (fvf (pdepfdata s) phase p) (\<lambda>cell_B.
         and_then (phaseRelPerm (pdepfdata s) phase) (\<lambda>kr.
         and_then (phaseViscosity (pdepfdata s) phase p) (\<lambda>mu.
         and_then (V_div_ADB kr mu) (\<lambda>kr_mu.
         and_then (M_mul_ADB upwind kr_mu) (\<lambda>mf.
         and_then (ADB_mul mf nkgradp) (\<lambda>flux.
         and_then (M_mul_ADB upwind cell_B) (\<lambda>face_B.
         and_then (map_col (surfacevol state) nc np phase) (\<lambda>z0.
           (let q = replicate nc 0
            in and_then (ADB_div flux face_B) (\<lambda>flux_B.
               and_then (M_mul_ADB (ops_div (ops s)) flux_B) (\<lambda>div_flux.
               and_then (V_sub_ADB q div_flux) (\<lambda>source.
               and_then (V_mul_ADB delta_t source) (\<lambda>dt_source.
                 if length pv \<noteq> length z0 then Inl SizeMismatch
                 else
                   and_then (V_add_ADB (map2 (\<lambda>x y. x * y) pv z0) dt_source) (\<lambda>component_contrib.
                   and_then (ADB_mul cell_B component_contrib) (\<lambda>contrib.
                     ADB_sub residual contrib))))))))))))))))"

fun assemble_phases ::
  "ImpesTPFAAD \<Rightarrow> BlackoilState \<Rightarrow> V \<Rightarrow> ADB \<Rightarrow> ADB \<Rightarrow> M \<Rightarrow> int list \<Rightarrow> ADB \<Rightarrow> error + ADB" where
  "assemble_phases s state delta_t p nkgradp upwind [] residual = Inr residual"
| "assemble_phases s state delta_t p nkgradp upwind (phase # phases) residual =
     and_then (assemble_phase s state delta_t p nkgradp upwind phase residual)
       (assemble_phases s state delta_t p nkgradp upwind phases)"

text \<open>\<^verbatim>\<open>ImpesTPFAAD::assemble(dt, state, well_state)\<close>.\<close>

definition ImpesTPFAAD_assemble ::
  "real \<Rightarrow> BlackoilState \<Rightarrow> WellState \<Rightarrow> ImpesTPFAAD \<Rightarrow> error + ImpesTPFAAD" where
  "ImpesTPFAAD_assemble dt state well_state s =
     (let pv = poreVolume (geo s);
          nc = number_of_cells (grid s);
          np = state_numPhases state;
          nw = number_of_wells (wells s)
      in and_then (computePressQuant state (pdepfdata s)) (\<lambda>pd.
           (let s1 = s\<lparr>pdepfdata := pd\<rparr>;
                delta_t = replicate nc dt
            in and_then (subset_V (transmissibility (geo s)) (internal_faces (ops s))) (\<lambda>transi.
               if \<not> (nw < length (well_connpos (wells s)) \<and>
                     well_connpos (wells s) ! nw \<le> length (well_cells (wells s)))
               then Inl OutOfRange
               else if \<not> (nc \<le> length (pressure state) \<and> nw \<le> length (bhp well_state))
               then Inl OutOfRange
               else
                 (let wcells = take (well_connpos (wells s) ! nw) (well_cells (wells s));
                      p0 = take nc (pressure state);
                      bhp0 = take nw (bhp well_state);
                      vars = ADB_variables [p0, bhp0];
                      p = vars ! 0;
                      bhp_v = vars ! 1;
                      bpat = blockPattern p
                  in and_then (M_mul_ADB (ngrad (ops s)) p) (\<lambda>gradp.
                     and_then (V_mul_ADB transi gradp) (\<lambda>nkgradp.
                       (let upwind = UpwindSelector s (val nkgradp)
                        in and_then (subset_ADB p wcells) (\<lambda>p_perfcell.
                           and_then (well_to_perf_M (length wcells) nw (well_connpos (wells s)))
                             (\<lambda>well_to_perf.
                           and_then (M_mul_ADB well_to_perf bhp_v) (\<lambda>perf_bhp.
                           and_then (ADB_add_V perf_bhp (replicate (length wcells) 0))
                             (\<lambda>p_perfwell.
                           and_then (assemble_phases s1 state delta_t p nkgradp upwind
                                       (map int [0..<nat np]) (ADB_constant pv bpat))
                             (\<lambda>residual. Inr (s1\<lparr>cell_residual := residual\<rparr>))))))))))))))"

text \<open>
  \<^verbatim>\<open>ImpesTPFAAD::solve(dt, state, well_state)\<close>. A normal return gives the assembler and
  the state after the call; a failure gives the error with the state as the failure
  leaves it.
\<close>

definition ImpesTPFAAD_solve ::
  "real \<Rightarrow> BlackoilState \<Rightarrow> WellState \<Rightarrow> ImpesTPFAAD \<Rightarrow>
   (error \<times> BlackoilState) + (ImpesTPFAAD \<times> BlackoilState)" where
  "ImpesTPFAAD_solve dt state well_state s =
     (case computeSatQuant state (pdepfdata s) of
        Inl e \<Rightarrow> Inl (e, state)
      | Inr pd \<Rightarrow>
          (case ImpesTPFAAD_assemble dt state well_state (s\<lparr>pdepfdata := pd\<rparr>) of
             Inl e \<Rightarrow> Inl (e, state)
           | Inr s1 \<Rightarrow>
               (let nc = number_of_cells (grid s1)
                in if jac (cell_residual s1) = [] then Inl (OutOfRange, state)
                   else
                     (let matr = jac (cell_residual s1) ! 0
                      in if length (pressure state) < nc then Inl (OutOfRange, state)
                         else
                           (let p0 = take nc (pressure state);
                                (conv, dp) = linsolver s1 nc matr (val (cell_residual s1))
                            in if \<not> conv
                               then Inl (RuntimeError
                                      ''ImpesTPFAAD::solve(): Linear solver convergence failure.'',
                                      state)
                               else
                                 (let p = map (\<lambda>c. p0 ! c - dp c) [0..<nc]
                                  in Inr (s1, state\<lparr>pressure := p @ drop nc (pressure state)\<rparr>)))))))"

subsection \<open>Shapes, stored entries and test fixtures\<close>

text \<open>
  An AD quantity of length \<open>n\<close> over a two-block pattern whose second block, the one of
  the well bottom-hole pressures, is the zero matrix of shape \<open>n \<times> m\<close>.
\<close>

definition well_block_zero :: "nat \<Rightarrow> nat \<Rightarrow> ADB \<Rightarrow> bool" where
  "well_block_zero n m a \<longleftrightarrow> length (val a) = n \<and> length (jac a) = 2 \<and> jac a ! 1 = zero_M n m"

text \<open>
  The shapes of the members of \<^verbatim>\<open>PressureDependentFluidData\<close> as the constructor sets
  them up; \<^verbatim>\<open>computeSatQuant\<close> and \<^verbatim>\<open>computePressQuant\<close> keep them.
\<close>

definition wf_pdepfdata :: "PressureDependentFluidData \<Rightarrow> bool" where
  "wf_pdepfdata d \<longleftrightarrow>
     dq_rows (pd_A d) = pd_nc d \<and> dq_cols (pd_A d) = nat (pd_np d * pd_np d) \<and>
     dq_rows (pd_dA d) = pd_nc d \<and> dq_cols (pd_dA d) = nat (pd_np d * pd_np d) \<and>
     dq_rows (pd_mu d) = pd_nc d \<and> dq_cols (pd_mu d) = nat (pd_np d) \<and>
     dq_rows (pd_dmu d) = pd_nc d \<and> dq_cols (pd_dmu d) = nat (pd_np d) \<and>
     dq_rows (pd_kr d) = pd_nc d \<and> dq_cols (pd_kr d) = nat (pd_np d) \<and>
     length (pd_zero d) = pd_nc d \<and> length (pd_one d) = pd_nc d \<and>
     (\<forall>c < pd_nc d. pd_one d ! c = 1)"

text \<open>
  The entries of the stored arrays that \<^verbatim>\<open>fvf\<close> reads for a phase: row \<open>c\<close>, column
  \<open>phase * (np_ + 1)\<close> of \<^verbatim>\<open>A_\<close> and of \<^verbatim>\<open>dA_\<close>.
\<close>

definition stored_A :: "PressureDependentFluidData \<Rightarrow> int \<Rightarrow> nat \<Rightarrow> real" where
  "stored_A d phase c = dq_data (pd_A d) ! (c * dq_cols (pd_A d) + nat (phase * (pd_np d + 1)))"

definition stored_dA :: "PressureDependentFluidData \<Rightarrow> int \<Rightarrow> nat \<Rightarrow> real" where
  "stored_dA d phase c = dq_data (pd_dA d) ! (c * dq_cols (pd_dA d) + nat (phase * (pd_np d + 1)))"

text \<open>
  A configuration for test runs: one cell, one well with one perforation, one phase,
  no internal face; a fluid with \<open>A = 2\<close>, \<open>dA/dp = 1/2\<close>, viscosity 1 and relative
  permeability 1; a linear solver that divides by the diagonal and one that reports
  failure.
\<close>

definition fixture_fluid :: BOFluid where
  "fixture_fluid = \<lparr>fluid_numPhases = 1, relperm = (\<lambda>n s cells k. 1),
     matrix = (\<lambda>n p z cells. (\<lambda>k. 2, \<lambda>k. 1 / 2)), viscosity = (\<lambda>n p z cells k. 1)\<rparr>"

definition fixture_impes :: "(nat \<Rightarrow> M \<Rightarrow> V \<Rightarrow> bool \<times> (nat \<Rightarrow> real)) \<Rightarrow> ImpesTPFAAD" where
  "fixture_impes ls = ImpesTPFAAD_init \<lparr>number_of_cells = 1\<rparr> fixture_fluid
     \<lparr>poreVolume = [1], transmissibility = []\<rparr>
     \<lparr>number_of_wells = 1, well_connpos = [0, 1], well_cells = [0]\<rparr>
     ls
     \<lparr>ngrad = zero_M 0 1, ops_div = zero_M 1 0, internal_faces = []\<rparr>
     (\<lambda>flux. zero_M 0 1) (\<lambda>k. 0)"

definition fixture_state :: BlackoilState where
  "fixture_state = \<lparr>pressure = [10], surfacevol = [3], saturation = [1], state_numPhases = 1\<rparr>"

definition fixture_pdepfdata :: PressureDependentFluidData where
  "fixture_pdepfdata =
     (PressureDependentFluidData_init 1 fixture_fluid (\<lambda>k. 0))
       \<lparr>pd_A := DerivedQuant_fill 1 1 (\<lambda>k. 2), pd_dA := DerivedQuant_fill 1 1 (\<lambda>k. 1 / 2),
        pd_mu := DerivedQuant_fill 1 1 (\<lambda>k. 1)\<rparr>"

definition diagonal_solver :: "nat \<Rightarrow> M \<Rightarrow> V \<Rightarrow> bool \<times> (nat \<Rightarrow> real)" where
  "diagonal_solver n A b = (True, \<lambda>i. b ! i / coeff A i i)"

definition failing_solver :: "nat \<Rightarrow> M \<Rightarrow> V \<Rightarrow> bool \<times> (nat \<Rightarrow> real)" where
  "failing_solver n A b = (False, \<lambda>i. 0)"

definition fixture_assembled :: "(nat \<Rightarrow> M \<Rightarrow> V \<Rightarrow> bool \<times> (nat \<Rightarrow> real)) \<Rightarrow> ImpesTPFAAD" where
  "fixture_assembled ls =
     projr (ImpesTPFAAD_assemble 1 fixture_state \<lparr>bhp = [5]\<rparr>
       ((fixture_impes ls)\<lparr>pdepfdata := (PressureDependentFluidData_init 1 fixture_fluid (\<lambda>k. 0))
            \<lparr>pd_kr := DerivedQuant_fill 1 1 (\<lambda>k. 1)\<rparr>\<rparr>))"

section \<open>Properties of the Newton solver\<close>

subsection \<open>Relaxation\<close>

text \<open>
  C6, as amended. Damping (\<open>DAMPEN\<close>) with \<open>omega = 0.5\<close> returns the update with every
  component halved; with \<open>omega = 1.0\<close> it returns the update unchanged. In both cases
  the stored previous update is overwritten with the incoming update, whatever it
  held before: the assignment \<^verbatim>\<open>dxOld = dx\<close> precedes the test of \<open>omega\<close>.
\<close>

theorem stabilizeNewton_dampen:
  "stabilizeNewton dx dx_old (1 / 2) DAMPEN = Inr (map (\<lambda>x. x / 2) dx, dx) \<and>
   stabilizeNewton dx dx_old 1 DAMPEN = Inr (dx, dx)"
  by (simp add: stabilizeNewton_def)

text \<open>
  C6 as stated fails: with \<open>omega = 1.0\<close> the stored previous update \<open>[0]\<close> does not
  survive the call; it becomes the incoming update \<open>[1]\<close>.
\<close>

theorem stabilizeNewton_dxOld_counterexample:
  "stabilizeNewton [1] [0] 1 DAMPEN = Inr ([1], [1]) \<and>
   stabilizeNewton [1] [0] 1 DAMPEN \<noteq> Inr ([1], [0])"
  by (simp add: stabilizeNewton_def)

subsection \<open>Oscillation detection\<close>

lemma detect_phases_count:
  "\<forall>p\<in>set ps. p < length F0 \<and> p < length F1 \<and> p < length F2 \<Longrightarrow>
   detect_phases F0 F1 F2 tol ps n s =
     Inr (n + int (length (filter (\<lambda>p. \<bar>(F0 ! p - F2 ! p) / F0 ! p\<bar> < tol \<and>
                                        tol < \<bar>(F0 ! p - F1 ! p) / F0 ! p\<bar>) ps)),
          s \<and> list_all (\<lambda>p. \<not> \<bar>(F1 ! p - F2 ! p) / F2 ! p\<bar> > 1 / 1000) ps)"
  by (induction ps arbitrary: n s) (auto simp: Let_def)

lemma spec_phase_flagged_code:
  "0 \<le> F0 ! p \<Longrightarrow> spec_phase_flagged F0 F1 F2 tol p \<longleftrightarrow>
     \<bar>(F0 ! p - F2 ! p) / F0 ! p\<bar> < tol \<and> tol < \<bar>(F0 ! p - F1 ! p) / F0 ! p\<bar>"
  by (simp add: spec_phase_flagged_def spec_d1_def spec_d2_def)

text \<open>
  C2. For an iteration count below 2 the detection reports neither oscillation nor
  stagnation. From iteration 2 on, on a history that holds the three snapshots read,
  each with an entry for every phase, and whose current norms are non-negative (as
  norms are), the count of flagged phases is the number of phases \<open>p\<close> with
  \<open>d1 < tol < d2\<close> in the words of the specification, and the step is reported
  oscillating exactly when more than one phase is flagged.
\<close>

theorem detectNewtonOscillations_rule:
  "(it < 2 \<longrightarrow> detectNewtonOscillations np h it tol = Inr (False, False)) \<and>
   (2 \<le> it \<and> nat it < length h \<and>
    nat np \<le> length (h ! nat it) \<and> nat np \<le> length (h ! nat (it - 1)) \<and>
    nat np \<le> length (h ! nat (it - 2)) \<and> (\<forall>p < nat np. 0 \<le> h ! nat it ! p) \<longrightarrow>
    detectNewtonOscillations np h it tol =
      Inr (1 < length (filter (spec_phase_flagged (h ! nat it) (h ! nat (it - 1))
                                 (h ! nat (it - 2)) tol) [0..<nat np]),
           list_all (\<lambda>p. \<not> \<bar>(h ! nat (it - 1) ! p - h ! nat (it - 2) ! p)
                                / h ! nat (it - 2) ! p\<bar> > 1 / 1000) [0..<nat np]))"
proof (intro conjI impI)
  assume "it < 2"
  then show "detectNewtonOscillations np h it tol = Inr (False, False)"
    by (simp add: detectNewtonOscillations_def)
next
  let ?F0 = "h ! nat it" and ?F1 = "h ! nat (it - 1)" and ?F2 = "h ! nat (it - 2)"
  assume a: "2 \<le> it \<and> nat it < length h \<and>
    nat np \<le> length ?F0 \<and> nat np \<le> length ?F1 \<and>
    nat np \<le> length ?F2 \<and> (\<forall>p < nat np. 0 \<le> ?F0 ! p)"
  then have rng: "\<forall>p\<in>set [0..<nat np]. p < length ?F0 \<and> p < length ?F1 \<and> p < length ?F2"
    by auto
  have flt: "filter (spec_phase_flagged ?F0 ?F1 ?F2 tol) [0..<nat np] =
     filter (\<lambda>p. \<bar>(?F0 ! p - ?F2 ! p) / ?F0 ! p\<bar> < tol \<and>
                 tol < \<bar>(?F0 ! p - ?F1 ! p) / ?F0 ! p\<bar>) [0..<nat np]"
    using a by (intro filter_cong refl) (simp add: spec_phase_flagged_code)
  show "detectNewtonOscillations np h it tol =
      Inr (1 < length (filter (spec_phase_flagged ?F0 ?F1 ?F2 tol) [0..<nat np]),
           list_all (\<lambda>p. \<not> \<bar>(?F1 ! p - ?F2 ! p) / ?F2 ! p\<bar> > 1 / 1000) [0..<nat np])"
    using a by (simp add: detectNewtonOscillations_def detect_phases_count [OF rng] flt)
qed

theorem detectNewtonOscillations_rule_witness:
  "detectNewtonOscillations 2 [[1, 1], [1 / 2, 1 / 2], [9 / 10, 9 / 10]] 1 (2 / 10)
     = Inr (False, False) \<and>
   detectNewtonOscillations 2 [[1, 1], [1 / 2, 1 / 2], [9 / 10, 9 / 10]] 2 (2 / 10)
     = Inr (True, False)"
proof -
  have nonneg: "\<forall>p < nat 2. (0::real) \<le> [[1, 1], [1 / 2, 1 / 2], [9 / 10, 9 / 10]] ! nat 2 ! p"
    by (auto simp: nth_Cons')
  show ?thesis
    using nonneg
      detectNewtonOscillations_rule [of 1 2 "[[1, 1], [1 / 2, 1 / 2], [9 / 10, 9 / 10]]" "2 / 10"]
      detectNewtonOscillations_rule [of 2 2 "[[1, 1], [1 / 2, 1 / 2], [9 / 10, 9 / 10]]" "2 / 10"]
    by (simp add: spec_phase_flagged_def spec_d1_def spec_d2_def upt_rec)
qed

text \<open>
  C3, as amended. With a single phase, on the history \<open>F2 = [1.0]\<close>, \<open>F1 = [0.5]\<close>,
  \<open>F0 = [0.9]\<close> and tolerance \<open>0.2\<close> the loop over the phases flags the phase (the count
  \<^verbatim>\<open>oscillatePhase\<close> is 1), but the step is reported as not oscillating, since that
  takes more than one flagged phase. On the decreasing history \<open>F2 = [1.0]\<close>,
  \<open>F1 = [0.9]\<close>, \<open>F0 = [0.8]\<close> the phase is not flagged and the step is reported as not
  oscillating.
\<close>

theorem detectNewtonOscillations_single_phase:
  "detect_phases [9 / 10] [1 / 2] [1] (2 / 10) [0..<nat 1] 0 True = Inr (1, False) \<and>
   detectNewtonOscillations 1 [[1], [1 / 2], [9 / 10]] 2 (2 / 10) = Inr (False, False) \<and>
   detect_phases [8 / 10] [9 / 10] [1] (2 / 10) [0..<nat 1] 0 True = Inr (0, False) \<and>
   detectNewtonOscillations 1 [[1], [9 / 10], [8 / 10]] 2 (2 / 10) = Inr (False, False)"
  by (simp add: detectNewtonOscillations_def)

text \<open>
  C3 as stated fails: on the first history the detection with one active phase does
  not report the step as oscillating.
\<close>

theorem detectNewtonOscillations_single_phase_counterexample:
  "detectNewtonOscillations 1 [[1], [1 / 2], [9 / 10]] 2 (2 / 10) \<noteq> Inr (True, False) \<and>
   detectNewtonOscillations 1 [[1], [1 / 2], [9 / 10]] 2 (2 / 10) \<noteq> Inr (True, True)"
  by (simp add: detectNewtonOscillations_def)

subsection \<open>The step driver\<close>

lemma detectNewtonOscillations_returns:
  assumes "it < 2 \<or> (nat it < length h \<and> (\<forall>F\<in>set h. nat np \<le> length F))"
  shows "\<exists>r. detectNewtonOscillations np h it tol = Inr r"
proof (cases "it < 2")
  case True
  then show ?thesis by (auto simp: detectNewtonOscillations_def)
next
  case False
  with assms have len: "nat it < length h" and all: "\<forall>F\<in>set h. nat np \<le> length F" by auto
  from False len have "nat (it - 1) < length h" "nat (it - 2) < length h" by auto
  with len all have
    "nat np \<le> length (h ! nat it)" "nat np \<le> length (h ! nat (it - 1))"
    "nat np \<le> length (h ! nat (it - 2))"
    by (auto simp: all_set_conv_all_nth)
  then have rng: "\<forall>p\<in>set [0..<nat np]. p < length (h ! nat it) \<and> p < length (h ! nat (it - 1))
      \<and> p < length (h ! nat (it - 2))"
    by auto
  show ?thesis
    using False len by (auto simp: detectNewtonOscillations_def detect_phases_count [OF rng])
qed

lemma stabilizeNewton_returns:
  assumes "rt = DAMPEN \<or> om = 1 \<or> length dx = length old"
  shows "\<exists>dx'. stabilizeNewton dx old om rt = Inr (dx', dx)"
  using assms by (cases rt) (auto simp: stabilizeNewton_def)

lemma stabilizeNewton_Inr:
  "stabilizeNewton dx old om rt = Inr (dx', old') \<Longrightarrow> old' = dx"
  by (cases rt) (auto simp: stabilizeNewton_def split: if_splits)

lemma newton_body_Inr:
  assumes "newton_body P m dt st = Inr st'"
  shows "iteration st' = iteration st + 1"
    and "\<exists>dx'. calls st' = calls st @ [SolveJacobianSystem, UpdateState dx', Assemble False,
                                      GetConvergence (iteration st + 1)]"
    and "\<exists>w. converged st' = fst (getConvergence m dt (iteration st + 1) w)"
    and "dxOld st' = fst (solveJacobianSystem m (world st))"
    and "\<exists>w. residual_norms_history st' = residual_norms_history st @ [computeResidualNorms m w]"
    and "linearIterationsUsed st' =
           linearIterationsUsed st + linearIterationsLastSolve m (snd (solveJacobianSystem m (world st)))"
  using assms
  by (auto simp: newton_body_def Let_def split: prod.splits sum.splits dest: stabilizeNewton_Inr)
     (metis fst_conv)

lemma newton_body_returns:
  assumes inv: "loop_inv P m st"
  shows "\<exists>st'. newton_body P m dt st = Inr st'"
proof -
  obtain dx w1 where sol: "solveJacobianSystem m (world st) = (dx, w1)"
    by (cases "solveJacobianSystem m (world st)")
  have "iteration st < 2 \<or> (nat (iteration st) < length (residual_norms_history st) \<and>
      (\<forall>F\<in>set (residual_norms_history st). nat (numPhases m w1) \<le> length F))"
    using inv by (auto simp: loop_inv_def nat_le_iff)
  then obtain osc stag where det: "detectNewtonOscillations (numPhases m w1)
      (residual_norms_history st) (iteration st) (relax_rel_tol P) = Inr (osc, stag)"
    using detectNewtonOscillations_returns by (metis surj_pair)
  let ?om = "if osc then max (omega st - relax_increment P) (relax_max P) else omega st"
  have "relax_type P = DAMPEN \<or> ?om = 1 \<or> length dx = length (dxOld st)"
    using inv sol by (cases "relax_type P") (auto simp: loop_inv_def dest: spec [where x = "world st"])
  then obtain dx' where stab: "stabilizeNewton dx (dxOld st) ?om (relax_type P) = Inr (dx', dx)"
    using stabilizeNewton_returns by blast
  show ?thesis
    using sol det stab by (simp add: newton_body_def Let_def split: prod.splits)
qed

lemma newton_body_inv:
  assumes inv: "loop_inv P m st" and wf: "wf_norms m" and body: "newton_body P m dt st = Inr st'"
  shows "loop_inv P m st'"
proof -
  note b = newton_body_Inr [OF body]
  from b(5) obtain w where h: "residual_norms_history st' = residual_norms_history st @ [computeResidualNorms m w]"
    by blast
  have sor: "relax_type P = SOR \<longrightarrow> (\<forall>w. length (fst (solveJacobianSystem m w)) = length (dxOld st'))"
    using inv b(4) by (auto simp: loop_inv_def)
  show ?thesis
    using inv wf b(1) h sor by (auto simp: loop_inv_def wf_norms_def)
qed

lemma num_solves_body [simp]:
  "num_solves (cs @ [SolveJacobianSystem, UpdateState dx', Assemble False, GetConvergence i])
     = num_solves cs + 1"
  by (simp add: num_solves_def)

lemma num_assemblies_body [simp]:
  "num_assemblies (cs @ [SolveJacobianSystem, UpdateState dx', Assemble False, GetConvergence i])
     = num_assemblies cs + 1"
  by (simp add: num_assemblies_def)

lemma newton_loop_never_converged:
  assumes "\<forall>it w. \<not> fst (getConvergence m dt it w)" and "wf_norms m"
    and "min_iter P \<le> max_iter P"
    and "loop_inv P m st" and "\<not> converged st" and "iteration st \<le> max_iter P"
  shows "\<exists>st'. newton_loop P m dt st = Inr st' \<and> iteration st' = max_iter P \<and> \<not> converged st' \<and>
           num_solves (calls st') = num_solves (calls st) + nat (max_iter P - iteration st) \<and>
           num_assemblies (calls st') = num_assemblies (calls st) + nat (max_iter P - iteration st) \<and>
           (iteration st < max_iter P \<longrightarrow> last (calls st') = GetConvergence (max_iter P))"
  using assms
proof (induction P m dt st rule: newton_loop.induct)
  case (1 P m dt st)
  show ?case
  proof (cases "iteration st < max_iter P")
    case False
    with "1.prems" show ?thesis
      by (simp add: newton_loop.simps [of P m dt st])
  next
    case True
    obtain st1 where body: "newton_body P m dt st = Inr st1"
      using newton_body_returns [OF "1.prems"(4)] by blast
    note b = newton_body_Inr [OF body]
    have inv1: "loop_inv P m st1"
      using newton_body_inv [OF "1.prems"(4) "1.prems"(2) body] .
    have nc1: "\<not> converged st1"
      using b(3) "1.prems"(1) by auto
    have le1: "iteration st1 \<le> max_iter P"
      using b(1) True by simp
    have cond: "(\<not> converged st \<and> iteration st < max_iter P) \<or> iteration st < min_iter P"
      using True "1.prems"(5) by simp
    from "1.IH" [OF cond body "1.prems"(1) "1.prems"(2) "1.prems"(3) inv1 nc1 le1]
    obtain st' where r: "newton_loop P m dt st1 = Inr st'" "iteration st' = max_iter P"
      "\<not> converged st'"
      "num_solves (calls st') = num_solves (calls st1) + nat (max_iter P - iteration st1)"
      "num_assemblies (calls st') = num_assemblies (calls st1) + nat (max_iter P - iteration st1)"
      "iteration st1 < max_iter P \<longrightarrow> last (calls st') = GetConvergence (max_iter P)"
      by blast
    from b(2) obtain dx' where cs: "calls st1 = calls st @ [SolveJacobianSystem, UpdateState dx',
        Assemble False, GetConvergence (iteration st + 1)]" by blast
    have loop: "newton_loop P m dt st = Inr st'"
      using cond body r(1) by (simp add: newton_loop.simps [of P m dt st])
    have lastc: "last (calls st') = GetConvergence (max_iter P)"
    proof (cases "iteration st1 < max_iter P")
      case True
      with r(6) show ?thesis by simp
    next
      case False
      with le1 have eq: "iteration st1 = max_iter P" by simp
      then have "newton_loop P m dt st1 = Inr st1"
        using nc1 "1.prems"(3) by (simp add: newton_loop.simps [of P m dt st1])
      with r(1) have "st' = st1" by simp
      with cs eq b(1) show ?thesis by simp
    qed
    show ?thesis
      using loop r(2,3,4,5) lastc cs b(1) True by (auto simp: nat_diff_distrib)
  qed
qed

lemma newton_init_inv:
  assumes "wf_norms m"
    and "relax_type P = SOR \<longrightarrow>
           (\<forall>w w'. length (fst (solveJacobianSystem m w)) = sizeNonLinear m w')"
  shows "loop_inv P m (newton_init m dt w)"
  using assms by (auto simp: loop_inv_def newton_init_def wf_norms_def Let_def split: prod.splits)

lemma newton_init_calls:
  "calls (newton_init m dt w) = [PrepareStep, Assemble True, GetConvergence 0]"
  "iteration (newton_init m dt w) = 0"
  "converged (newton_init m dt w) = fst (getConvergence m dt 0 (assemble m True (prepareStep m dt w)))"
  "linearIterationsUsed (newton_init m dt w) = 0"
  by (simp_all add: newton_init_def Let_def split: prod.splits)

text \<open>
  C1, as amended. For every model that never reports convergence, whose residual-norm
  vectors hold an entry for every phase (and, under SOR, whose updates have the size
  that \<^verbatim>\<open>sizeNonLinear\<close> reports), with \<open>min_iter \<le> max_iter\<close> and \<open>0 \<le> max_iter\<close>:
  \<^verbatim>\<open>step\<close> leaves its loop at \<open>iteration = max_iter\<close> and returns \<open>-1\<close> with the solver
  unchanged, the last call issued being the convergence query for iteration
  \<open>max_iter\<close>, after exactly \<open>max_iter\<close> calls of \<^verbatim>\<open>solveJacobianSystem\<close> and
  \<open>max_iter + 1\<close> calls of \<^verbatim>\<open>assemble\<close>.
\<close>

theorem step_never_converged:
  assumes never: "\<forall>it w. \<not> fst (getConvergence m dt it w)"
    and minmax: "min_iter (param s) \<le> max_iter (param s)"
    and nonneg: "0 \<le> max_iter (param s)"
    and norms: "\<forall>w w'. numPhases m w \<le> int (length (computeResidualNorms m w'))"
    and sizes: "relax_type (param s) = SOR \<longrightarrow>
           (\<forall>w w'. length (fst (solveJacobianSystem m w)) = sizeNonLinear m w')"
  shows "\<exists>st. newton_loop (param s) m dt (newton_init m dt w) = Inr st \<and>
           iteration st = max_iter (param s) \<and>
           step s m dt w = Inr (- 1, s, world st, calls st) \<and>
           last (calls st) = GetConvergence (max_iter (param s)) \<and>
           num_solves (calls st) = nat (max_iter (param s)) \<and>
           num_assemblies (calls st) = nat (max_iter (param s)) + 1"
proof -
  let ?P = "param s" and ?st0 = "newton_init m dt w"
  have wf: "wf_norms m" using norms by (simp add: wf_norms_def)
  have inv: "loop_inv ?P m ?st0" using newton_init_inv [OF wf sizes] .
  have nc: "\<not> converged ?st0" using never by (simp add: newton_init_calls)
  have le: "iteration ?st0 \<le> max_iter ?P" using nonneg by (simp add: newton_init_calls)
  from newton_loop_never_converged [OF never wf minmax inv nc le]
  obtain st where r: "newton_loop ?P m dt ?st0 = Inr st" "iteration st = max_iter ?P"
    "\<not> converged st"
    "num_solves (calls st) = num_solves (calls ?st0) + nat (max_iter ?P - iteration ?st0)"
    "num_assemblies (calls st) = num_assemblies (calls ?st0) + nat (max_iter ?P - iteration ?st0)"
    "iteration ?st0 < max_iter ?P \<longrightarrow> last (calls st) = GetConvergence (max_iter ?P)"
    by blast
  have lastc: "last (calls st) = GetConvergence (max_iter ?P)"
  proof (cases "0 < max_iter ?P")
    case True
    with r(6) show ?thesis by (simp add: newton_init_calls)
  next
    case False
    with nonneg have z: "max_iter ?P = 0" by simp
    then have "newton_loop ?P m dt ?st0 = Inr ?st0"
      using minmax by (simp add: newton_loop.simps [of ?P m dt ?st0] newton_init_calls)
    with r(1) have "st = ?st0" by simp
    with z show ?thesis by (simp add: newton_init_calls)
  qed
  have "step s m dt w = Inr (- 1, s, world st, calls st)"
    using r(1,3) by (simp add: step_def)
  with r lastc show ?thesis
    by (auto simp: newton_init_calls num_solves_def num_assemblies_def)
qed

theorem step_never_converged_witness:
  "\<exists>st. newton_loop reset (mock_model (\<lambda>it. False) 1) 1
           (newton_init (mock_model (\<lambda>it. False) 1) 1 ()) = Inr st \<and>
        iteration st = 15 \<and>
        step (NewtonSolver_init reset 0 0) (mock_model (\<lambda>it. False) 1) 1 ()
          = Inr (- 1, NewtonSolver_init reset 0 0, world st, calls st) \<and>
        last (calls st) = GetConvergence 15 \<and>
        num_solves (calls st) = 15 \<and> num_assemblies (calls st) = 16"
  using step_never_converged [of "mock_model (\<lambda>it. False) 1" 1 "NewtonSolver_init reset 0 0" "()"]
  by (simp add: mock_model_def NewtonSolver_init_def reset_def)

text \<open>
  C1 as stated fails for a negative iteration cap: with \<open>max_iter = min_iter = -1\<close> the
  loop is not entered, and \<^verbatim>\<open>step\<close> returns \<open>-1\<close> at iteration 0, which is not
  \<open>max_iter\<close>, after no linear solve and one assembly.
\<close>

theorem step_negative_max_iter_counterexample:
  "min_iter (reset\<lparr>max_iter := - 1, min_iter := - 1\<rparr>) \<le> max_iter (reset\<lparr>max_iter := - 1, min_iter := - 1\<rparr>) \<and>
   step (NewtonSolver_init (reset\<lparr>max_iter := - 1, min_iter := - 1\<rparr>) 0 0)
        (mock_model (\<lambda>it. False) 1) 1 ()
     = Inr (- 1, NewtonSolver_init (reset\<lparr>max_iter := - 1, min_iter := - 1\<rparr>) 0 0, (),
            [PrepareStep, Assemble True, GetConvergence 0]) \<and>
   GetConvergence 0 \<noteq> GetConvergence (max_iter (reset\<lparr>max_iter := - 1, min_iter := - 1\<rparr>)) \<and>
   int (num_solves [PrepareStep, Assemble True, GetConvergence 0])
     \<noteq> max_iter (reset\<lparr>max_iter := - 1, min_iter := - 1\<rparr>)"
  by (simp add: step_def newton_init_def newton_loop.simps mock_model_def NewtonSolver_init_def
        reset_def num_solves_def)

text \<open>
  C7, as amended. With \<open>min_iter = 1\<close>, for every model that reports convergence at
  iteration 0 and again at iteration 1, after the forced iteration: \<^verbatim>\<open>step\<close> performs
  exactly one iteration (one linear solve, one update, one reassembly, one further
  convergence query), then updates the counters, runs \<^verbatim>\<open>afterStep\<close> and returns the
  linear iterations of that one solve.
\<close>

theorem step_min_iter_one:
  assumes "min_iter (param s) = 1"
    and "w2 = assemble m True (prepareStep m dt w)"
    and "fst (getConvergence m dt 0 w2)"
    and "w3 = snd (getConvergence m dt 0 w2)"
    and "dx = fst (solveJacobianSystem m w3)"
    and "w4 = snd (solveJacobianSystem m w3)"
    and "w5 = assemble m False (updateState m dx w4)"
    and "fst (getConvergence m dt 1 w5)"
  shows "step s m dt w =
     Inr (linearIterationsLastSolve m w4,
          s\<lparr>newtonIterations := newtonIterations s + 1,
            linearIterations := linearIterations s + word_of_int (linearIterationsLastSolve m w4),
            newtonIterationsLast := 1,
            linearIterationsLast := word_of_int (linearIterationsLastSolve m w4)\<rparr>,
          afterStep m dt (snd (getConvergence m dt 1 w5)),
          [PrepareStep, Assemble True, GetConvergence 0,
           SolveJacobianSystem, UpdateState dx, Assemble False, GetConvergence 1,
           AfterStep])"
proof -
  let ?st0 = "newton_init m dt w"
  have st0: "world ?st0 = w3" "iteration ?st0 = 0" "converged ?st0" "omega ?st0 = 1"
    "calls ?st0 = [PrepareStep, Assemble True, GetConvergence 0]" "linearIterationsUsed ?st0 = 0"
    using assms by (simp_all add: newton_init_def Let_def case_prod_beta)
  have stab: "stabilizeNewton dx (dxOld ?st0) 1 (relax_type (param s)) = Inr (dx, dx)"
    by (cases "relax_type (param s)") (simp_all add: stabilizeNewton_def)
  obtain st1 where body: "newton_body (param s) m dt ?st0 = Inr st1"
    and st1: "world st1 = snd (getConvergence m dt 1 w5)" "iteration st1 = 1" "converged st1"
      "calls st1 = [PrepareStep, Assemble True, GetConvergence 0,
           SolveJacobianSystem, UpdateState dx, Assemble False, GetConvergence 1]"
      "linearIterationsUsed st1 = linearIterationsLastSolve m w4"
    using assms st0 stab
    by (simp add: newton_body_def Let_def detectNewtonOscillations_def case_prod_beta)
  have "newton_loop (param s) m dt st1 = Inr st1"
    using st1 assms(1) by (simp add: newton_loop.simps [of _ _ _ st1])
  then have "newton_loop (param s) m dt ?st0 = Inr st1"
    using st0 assms(1) body by (simp add: newton_loop.simps [of _ _ _ ?st0])
  then show ?thesis
    using st1 by (simp add: step_def)
qed

theorem step_min_iter_one_witness:
  "step (NewtonSolver_init reset 0 0) (mock_model (\<lambda>it. True) 3) 1 () =
     Inr (3,
          \<lparr>param = reset, newtonIterations = 1, linearIterations = 3,
           newtonIterationsLast = 1, linearIterationsLast = 3\<rparr>,
          (),
          [PrepareStep, Assemble True, GetConvergence 0,
           SolveJacobianSystem, UpdateState [1], Assemble False, GetConvergence 1,
           AfterStep])"
  using step_min_iter_one [where s = "NewtonSolver_init reset 0 0"
      and m = "mock_model (\<lambda>it. True) 3" and dt = 1 and w = "()", OF _ refl _ refl refl refl refl]
  by (simp add: mock_model_def NewtonSolver_init_def reset_def)

text \<open>
  C7 as stated fails: a model that reports convergence at iteration 0 but not after
  the forced iteration is iterated further, here up to \<open>max_iter = 2\<close>, and \<^verbatim>\<open>step\<close>
  returns \<open>-1\<close> instead of success.
\<close>

theorem step_min_iter_one_counterexample:
  "fst (getConvergence (mock_model (\<lambda>it. it = 0) 3) 1 0
          (assemble (mock_model (\<lambda>it. it = 0) 3) True
             (prepareStep (mock_model (\<lambda>it. it = 0) 3) 1 ()))) \<and>
   min_iter (reset\<lparr>max_iter := 2\<rparr>) = 1 \<and>
   step (NewtonSolver_init (reset\<lparr>max_iter := 2\<rparr>) 0 0) (mock_model (\<lambda>it. it = 0) 3) 1 () =
     Inr (- 1, NewtonSolver_init (reset\<lparr>max_iter := 2\<rparr>) 0 0, (),
          [PrepareStep, Assemble True, GetConvergence 0,
           SolveJacobianSystem, UpdateState [1], Assemble False, GetConvergence 1,
           SolveJacobianSystem, UpdateState [1], Assemble False, GetConvergence 2])"
  by (simp add: step_def newton_init_def newton_loop.simps newton_body_def
        detectNewtonOscillations_def stabilizeNewton_def mock_model_def NewtonSolver_init_def
        reset_def)

lemma newton_loop_invariant:
  assumes "newton_loop P m dt st = Inr st'" and "Q st"
    and "\<And>a b. Q a \<Longrightarrow> newton_body P m dt a = Inr b \<Longrightarrow> Q b"
  shows "Q st'"
  using assms
proof (induction P m dt st rule: newton_loop.induct)
  case (1 P m dt st)
  show ?case
  proof (cases "(\<not> converged st \<and> iteration st < max_iter P) \<or> min_iter P > iteration st")
    case False
    with "1.prems"(1,2) show ?thesis
      by (simp add: newton_loop.simps [of P m dt st])
  next
    case True
    with "1.prems"(1) obtain st1 where body: "newton_body P m dt st = Inr st1"
      and rest: "newton_loop P m dt st1 = Inr st'"
      by (auto simp: newton_loop.simps [of P m dt st] split: sum.splits)
    have "Q st1" using "1.prems"(3) [OF "1.prems"(2) body] .
    from "1.IH" [OF True body rest this "1.prems"(3)] show ?thesis .
  qed
qed

lemma newton_loop_no_afterStep:
  assumes "newton_loop P m dt st = Inr st'" and "AfterStep \<notin> set (calls st)"
  shows "AfterStep \<notin> set (calls st')"
  using assms(1,2)
proof (rule newton_loop_invariant)
  fix a b
  assume "AfterStep \<notin> set (calls a)" and "newton_body P m dt a = Inr b"
  then show "AfterStep \<notin> set (calls b)"
    using newton_body_Inr(2) [of P m dt a b] by auto
qed

lemma newton_loop_linearIterations_nonneg:
  assumes "newton_loop P m dt st = Inr st'" and "0 \<le> linearIterationsUsed st"
    and nonneg: "\<forall>w. 0 \<le> linearIterationsLastSolve m w"
  shows "0 \<le> linearIterationsUsed st'"
  using assms(1,2)
proof (rule newton_loop_invariant)
  fix a b
  assume "0 \<le> linearIterationsUsed a" and "newton_body P m dt a = Inr b"
  then show "0 \<le> linearIterationsUsed b"
    using newton_body_Inr(6) [of P m dt a b] nonneg by (simp add: add_nonneg_nonneg)
qed

text \<open>
  C10. Whenever the loop of \<^verbatim>\<open>step\<close> ends without convergence, \<^verbatim>\<open>step\<close> returns \<open>-1\<close>
  with the solver object unchanged, hence with its four counters as before the call,
  and \<^verbatim>\<open>afterStep\<close> is not among the calls issued. For a model whose linear-iteration
  counts are non-negative, a returned \<open>-1\<close> can only come from that path: then the
  solver returned is the solver passed and \<^verbatim>\<open>afterStep\<close> was not called.
\<close>

theorem step_failure_leaves_counters:
  "(newton_loop (param s) m dt (newton_init m dt w) = Inr st \<and> \<not> converged st \<longrightarrow>
      step s m dt w = Inr (- 1, s, world st, calls st) \<and> AfterStep \<notin> set (calls st)) \<and>
   ((\<forall>w. 0 \<le> linearIterationsLastSolve m w) \<and> step s m dt w = Inr (- 1, s', w', cs) \<longrightarrow>
      s' = s \<and> AfterStep \<notin> set cs)"
proof (intro conjI impI)
  assume a: "newton_loop (param s) m dt (newton_init m dt w) = Inr st \<and> \<not> converged st"
  then show "step s m dt w = Inr (- 1, s, world st, calls st)"
    by (simp add: step_def)
  from a show "AfterStep \<notin> set (calls st)"
    using newton_loop_no_afterStep [of "param s" m dt "newton_init m dt w" st]
    by (simp add: newton_init_calls)
next
  assume a: "(\<forall>w. 0 \<le> linearIterationsLastSolve m w) \<and> step s m dt w = Inr (- 1, s', w', cs)"
  then obtain st where loop: "newton_loop (param s) m dt (newton_init m dt w) = Inr st"
    by (auto simp: step_def split: sum.splits)
  have "0 \<le> linearIterationsUsed st"
    using newton_loop_linearIterations_nonneg [OF loop] a by (simp add: newton_init_calls)
  with a loop have nc: "\<not> converged st" and eq: "s' = s" "cs = calls st"
    by (auto simp: step_def split: if_splits)
  have "AfterStep \<notin> set (calls st)"
    using newton_loop_no_afterStep [OF loop] by (simp add: newton_init_calls)
  with eq show "s' = s" "AfterStep \<notin> set cs" by simp_all
qed

theorem step_failure_leaves_counters_witness:
  "step (NewtonSolver_init (reset\<lparr>max_iter := 1\<rparr>) 7 9) (mock_model (\<lambda>it. False) 3) 1 () =
     Inr (- 1, NewtonSolver_init (reset\<lparr>max_iter := 1\<rparr>) 7 9, (),
          [PrepareStep, Assemble True, GetConvergence 0,
           SolveJacobianSystem, UpdateState [1], Assemble False, GetConvergence 1]) \<and>
   AfterStep \<notin> set [PrepareStep, Assemble True, GetConvergence 0,
           SolveJacobianSystem, UpdateState [1], Assemble False, GetConvergence 1]"
proof -
  let ?s = "NewtonSolver_init (reset\<lparr>max_iter := 1\<rparr>) 7 9" and ?m = "mock_model (\<lambda>it. False) 3"
  let ?cs = "[PrepareStep, Assemble True, GetConvergence 0,
           SolveJacobianSystem, UpdateState [1], Assemble False, GetConvergence 1]"
  let ?st = "\<lparr>world = (), calls = ?cs, residual_norms_history = [[1], [1]], omega = 1,
     iteration = 1, converged = False, dxOld = [1], isOscillate = False, isStagnate = False,
     linearIterationsUsed = 3\<rparr>"
  have loop: "newton_loop (param ?s) ?m 1 (newton_init ?m 1 ()) = Inr ?st"
    by (simp add: newton_init_def newton_loop.simps newton_body_def
        detectNewtonOscillations_def stabilizeNewton_def mock_model_def NewtonSolver_init_def
        reset_def)
  have nonneg: "\<forall>w. 0 \<le> linearIterationsLastSolve ?m w"
    by (simp add: mock_model_def)
  from step_failure_leaves_counters [of ?s ?m 1 "()" ?st ?s "()" ?cs] loop nonneg
  show ?thesis by simp
qed

section \<open>Properties of the IMPES assembler\<close>

subsection \<open>Sequencing and evaluation of the test configuration\<close>

lemma and_then_Inr:
  "and_then r f = Inr y \<longleftrightarrow> (\<exists>x. r = Inr x \<and> f x = Inr y)"
  by (cases r) (simp_all add: and_then_def)

lemma sum_list_zero [simp]: "sum_list (map (\<lambda>k. (0::real)) xs) = 0"
  by (induction xs) simp_all

lemmas impes_defs = fixture_impes_def fixture_fluid_def fixture_state_def fixture_pdepfdata_def
  ImpesTPFAAD_init_def PressureDependentFluidData_init_def DerivedQuant_fill_def buildAllCells_def
  computeSatQuant_def computePressQuant_def fvf_def phaseRelPerm_def phaseViscosity_def
  block_col_def map_col_def well_to_perf_M_def assemble_phase_def ImpesTPFAAD_assemble_def
  and_then_def Let_def
  ADB_variables_def ADB_variable_def ADB_constant_def ADB_function_def compatible_def
  ADB_add_def ADB_sub_def ADB_mul_def ADB_div_def V_add_ADB_def ADB_add_V_def V_sub_ADB_def
  V_mul_ADB_def V_div_ADB_def M_mul_ADB_def subset_V_def subset_ADB_def
  blockPattern_def numBlocks_def
  zero_M_def identity_M_def spdiag_def add_M_def sub_M_def diag_mul_def mul_M_def mul_MV_def
  gather_M_def

lemma fixture_computeSatQuant:
  "computeSatQuant fixture_state (pdepfdata (fixture_impes ls)) =
     Inr ((PressureDependentFluidData_init 1 fixture_fluid (\<lambda>k. 0))
            \<lparr>pd_kr := DerivedQuant_fill 1 1 (\<lambda>k. 1)\<rparr>)"
  by (simp add: impes_defs)

lemma fixture_assemble:
  "ImpesTPFAAD_assemble 1 fixture_state \<lparr>bhp = [5]\<rparr>
     ((fixture_impes ls)\<lparr>pdepfdata := (PressureDependentFluidData_init 1 fixture_fluid (\<lambda>k. 0))
            \<lparr>pd_kr := DerivedQuant_fill 1 1 (\<lambda>k. 1)\<rparr>\<rparr>) = Inr (fixture_assembled ls)"
proof -
  have "\<not> isl (ImpesTPFAAD_assemble 1 fixture_state \<lparr>bhp = [5]\<rparr>
     ((fixture_impes ls)\<lparr>pdepfdata := (PressureDependentFluidData_init 1 fixture_fluid (\<lambda>k. 0))
            \<lparr>pd_kr := DerivedQuant_fill 1 1 (\<lambda>k. 1)\<rparr>\<rparr>))"
    by (simp add: impes_defs upt_rec)
  then show ?thesis
    unfolding fixture_assembled_def by simp
qed

lemma fixture_residual:
  "val (cell_residual (fixture_assembled ls)) = [- (1 / 2)]"
  "coeff (jac (cell_residual (fixture_assembled ls)) ! 0) 0 0 = 3 / 8"
  by (simp_all add: fixture_assembled_def impes_defs upt_rec)

subsection \<open>The well block of the cell residual\<close>

lemma wbz_blockPattern: "well_block_zero n m a \<Longrightarrow> blockPattern a ! 1 = m"
  by (simp add: well_block_zero_def blockPattern_def zero_M_def)

lemma wbz_constant: "length bpat = 2 \<Longrightarrow> bpat ! 1 = m \<Longrightarrow> well_block_zero (length v) m (ADB_constant v bpat)"
  by (simp add: well_block_zero_def ADB_constant_def)

lemma wbz_constant_of:
  "well_block_zero n m a \<Longrightarrow> well_block_zero (length v) m (ADB_constant v (blockPattern a))"
  by (rule wbz_constant) (simp_all add: well_block_zero_def blockPattern_def zero_M_def)

lemma wbz_add:
  "ADB_add a b = Inr c \<Longrightarrow> well_block_zero n m a \<Longrightarrow> well_block_zero n' m b \<Longrightarrow> well_block_zero n m c"
  by (auto simp: ADB_add_def well_block_zero_def zero_M_def add_M_def compatible_def split: if_splits)

lemma wbz_sub:
  "ADB_sub a b = Inr c \<Longrightarrow> well_block_zero n m a \<Longrightarrow> well_block_zero n' m b \<Longrightarrow> well_block_zero n m c"
  by (auto simp: ADB_sub_def well_block_zero_def zero_M_def sub_M_def compatible_def split: if_splits)

lemma wbz_mul:
  "ADB_mul a b = Inr c \<Longrightarrow> well_block_zero n m a \<Longrightarrow> well_block_zero n' m b \<Longrightarrow> well_block_zero n m c"
  by (auto simp: ADB_mul_def well_block_zero_def zero_M_def add_M_def diag_mul_def compatible_def
      split: if_splits)

lemma wbz_div:
  "ADB_div a b = Inr c \<Longrightarrow> well_block_zero n m a \<Longrightarrow> well_block_zero n' m b \<Longrightarrow> well_block_zero n m c"
  by (auto simp: ADB_div_def well_block_zero_def zero_M_def sub_M_def diag_mul_def compatible_def
      split: if_splits)

lemma wbz_V_op:
  assumes "well_block_zero n m a"
  shows "V_add_ADB v a = Inr c \<Longrightarrow> well_block_zero (length v) m c"
    and "V_sub_ADB v a = Inr c \<Longrightarrow> well_block_zero (length v) m c"
    and "V_mul_ADB v a = Inr c \<Longrightarrow> well_block_zero (length v) m c"
    and "V_div_ADB v a = Inr c \<Longrightarrow> well_block_zero (length v) m c"
  using wbz_constant_of [OF assms, of v] assms
  by (auto simp: V_add_ADB_def V_sub_ADB_def V_mul_ADB_def V_div_ADB_def
      intro: wbz_add wbz_sub wbz_mul wbz_div)

lemma wbz_M_mul:
  "M_mul_ADB A a = Inr c \<Longrightarrow> well_block_zero n m a \<Longrightarrow> well_block_zero (rows A) m c"
  by (auto simp: M_mul_ADB_def well_block_zero_def zero_M_def mul_M_def mul_MV_def split: if_splits)

lemma wbz_function:
  "ADB_function v [J, zero_M (length v) m] = Inr f \<Longrightarrow> well_block_zero (length v) m f"
  by (auto simp: ADB_function_def well_block_zero_def split: if_splits)

lemma wbz_fvf:
  assumes "fvf d phase p = Inr r" and "well_block_zero n m p"
  shows "well_block_zero (length (pd_one d)) m r"
proof -
  from assms(1) obtain A dA f where
    f: "ADB_function A [spdiag dA, zero_M (length A) (blockPattern p ! 1)] = Inr f"
    and r: "V_div_ADB (pd_one d) f = Inr r"
    by (auto simp: fvf_def and_then_Inr Let_def split: if_splits)
  have "well_block_zero (length A) m f"
    using f wbz_blockPattern [OF assms(2)] wbz_function by simp
  then show ?thesis using r by (rule wbz_V_op(4))
qed

lemma wbz_phaseViscosity:
  assumes "phaseViscosity d phase p = Inr r" and "well_block_zero n m p"
  shows "\<exists>k. well_block_zero k m r"
proof -
  from assms(1) obtain mu dmu where
    f: "ADB_function mu [spdiag dmu, zero_M (length mu) (blockPattern p ! 1)] = Inr r"
    by (auto simp: phaseViscosity_def and_then_Inr Let_def split: if_splits)
  then have "well_block_zero (length mu) m r"
    using wbz_blockPattern [OF assms(2)] wbz_function by simp
  then show ?thesis ..
qed

lemma wbz_assemble_phase:
  assumes "assemble_phase s state delta_t p nkgradp upwind phase residual = Inr r"
    and "well_block_zero n m p" and "well_block_zero k m nkgradp"
    and "well_block_zero l m residual"
  shows "well_block_zero l m r"
proof -
  from assms(1) obtain cell_B kr mu kr_mu mf flux face_B z0 flux_B div_flux src dt_src cc contrib
    where st:
      "fvf (pdepfdata s) phase p = Inr cell_B"
      "phaseViscosity (pdepfdata s) phase p = Inr mu"
      "V_div_ADB kr mu = Inr kr_mu"
      "M_mul_ADB upwind kr_mu = Inr mf"
      "ADB_mul mf nkgradp = Inr flux"
      "M_mul_ADB upwind cell_B = Inr face_B"
      "ADB_div flux face_B = Inr flux_B"
      "M_mul_ADB (ops_div (ops s)) flux_B = Inr div_flux"
      "V_sub_ADB (replicate (number_of_cells (grid s)) 0) div_flux = Inr src"
      "V_mul_ADB delta_t src = Inr dt_src"
      "V_add_ADB (map2 (\<lambda>x y. x * y) (poreVolume (geo s)) z0) dt_src = Inr cc"
      "ADB_mul cell_B cc = Inr contrib"
      "ADB_sub residual contrib = Inr r"
    by (auto simp: assemble_phase_def and_then_Inr Let_def split: if_splits)
  note b = wbz_fvf [OF st(1) assms(2)]
  from wbz_phaseViscosity [OF st(2) assms(2)] obtain k1 where mu: "well_block_zero k1 m mu" by blast
  note km = wbz_V_op(4) [OF mu st(3)]
  note mf = wbz_M_mul [OF st(4) km]
  note fl = wbz_mul [OF st(5) mf assms(3)]
  note fb = wbz_M_mul [OF st(6) b]
  note flb = wbz_div [OF st(7) fl fb]
  note dv = wbz_M_mul [OF st(8) flb]
  note sr = wbz_V_op(2) [OF dv st(9)]
  note ds = wbz_V_op(3) [OF sr st(10)]
  note cc = wbz_V_op(1) [OF ds st(11)]
  note ct = wbz_mul [OF st(12) b cc]
  show ?thesis using wbz_sub [OF st(13) assms(4) ct] .
qed

lemma wbz_assemble_phases:
  assumes "assemble_phases s state delta_t p nkgradp upwind phases residual = Inr r"
    and "well_block_zero n m p" and "well_block_zero k m nkgradp"
    and "well_block_zero l m residual"
  shows "well_block_zero l m r"
  using assms
proof (induction phases arbitrary: residual)
  case Nil
  then show ?case by simp
next
  case (Cons phase phases)
  from Cons.prems(1) obtain r1 where
    1: "assemble_phase s state delta_t p nkgradp upwind phase residual = Inr r1"
    and 2: "assemble_phases s state delta_t p nkgradp upwind phases r1 = Inr r"
    by (auto simp: and_then_Inr)
  have "well_block_zero l m r1"
    using wbz_assemble_phase [OF 1 Cons.prems(2,3,4)] .
  from Cons.IH [OF 2 Cons.prems(2,3) this] show ?case .
qed

lemma wbz_variable0:
  "well_block_zero (length p0) (length bhp0) (ADB_variables [p0, bhp0] ! 0)"
  by (simp add: ADB_variables_def ADB_variable_def well_block_zero_def upt_rec)

lemma blockPattern_variable0:
  "blockPattern (ADB_variables [p0, bhp0] ! 0) = [length p0, length bhp0]"
  by (simp add: ADB_variables_def ADB_variable_def blockPattern_def upt_rec identity_M_def zero_M_def)

lemma assemble_InrE:
  assumes "ImpesTPFAAD_assemble dt state well_state s = Inr s'"
  obtains pd residual where "computePressQuant state (pdepfdata s) = Inr pd"
    and "s' = s\<lparr>pdepfdata := pd, cell_residual := residual\<rparr>"
    and "well_block_zero (length (poreVolume (geo s))) (number_of_wells (wells s)) residual"
    and "number_of_cells (grid s) \<le> length (pressure state)"
proof -
  let ?nc = "number_of_cells (grid s)" and ?nw = "number_of_wells (wells s)"
  let ?p = "ADB_variables [take ?nc (pressure state), take ?nw (bhp well_state)] ! 0"
  from assms obtain pd transi gradp nkgradp residual where
    pd: "computePressQuant state (pdepfdata s) = Inr pd"
    and len: "?nc \<le> length (pressure state)" "?nw \<le> length (bhp well_state)"
    and g: "M_mul_ADB (ngrad (ops s)) ?p = Inr gradp"
    and nk: "V_mul_ADB transi gradp = Inr nkgradp"
    and ph: "assemble_phases (s\<lparr>pdepfdata := pd\<rparr>) state (replicate ?nc dt) ?p nkgradp
               (UpwindSelector s (val nkgradp)) (map int [0..<nat (state_numPhases state)])
               (ADB_constant (poreVolume (geo s)) (blockPattern ?p)) = Inr residual"
    and s': "s' = s\<lparr>pdepfdata := pd, cell_residual := residual\<rparr>"
    by (auto simp: ImpesTPFAAD_assemble_def and_then_Inr Let_def split: if_splits)
  have p: "well_block_zero ?nc ?nw ?p"
    using wbz_variable0 [of "take ?nc (pressure state)" "take ?nw (bhp well_state)"] len by simp
  note gp = wbz_M_mul [OF g p]
  note nkp = wbz_V_op(3) [OF gp nk]
  have c: "well_block_zero (length (poreVolume (geo s))) ?nw
             (ADB_constant (poreVolume (geo s)) (blockPattern ?p))"
    using wbz_constant_of [OF p] .
  note r = wbz_assemble_phases [OF ph p nkp c]
  show ?thesis using that [OF pd s' r len(1)] .
qed

text \<open>
  C8. The constructor leaves the well residual as the null quantity. Whenever
  \<^verbatim>\<open>assemble\<close> returns, the assembled cell residual has two Jacobian blocks, the block
  with respect to the well bottom-hole pressures is the zero matrix (one row per entry
  of the pore-volume vector, one column per well), and the well residual is what it
  was before the call. The same holds of the assembler that a returning \<^verbatim>\<open>solve\<close>
  leaves behind.
\<close>

theorem assemble_well_block_zero:
  "well_residual (ImpesTPFAAD_init g fluid ge w ls hops upw junk) = ADB_null \<and>
   (ImpesTPFAAD_assemble dt state well_state s = Inr s' \<longrightarrow>
      numBlocks (cell_residual s') = 2 \<and>
      jac (cell_residual s') ! 1
        = zero_M (length (poreVolume (geo s))) (number_of_wells (wells s)) \<and>
      well_residual s' = well_residual s) \<and>
   (ImpesTPFAAD_solve dt state well_state s = Inr (s'', state') \<longrightarrow>
      jac (cell_residual s'') ! 1
        = zero_M (length (poreVolume (geo s))) (number_of_wells (wells s)) \<and>
      well_residual s'' = well_residual s)"
proof (intro conjI impI)
  show "well_residual (ImpesTPFAAD_init g fluid ge w ls hops upw junk) = ADB_null"
    by (simp add: ImpesTPFAAD_init_def)
next
  assume a: "ImpesTPFAAD_assemble dt state well_state s = Inr s'"
  then obtain pd residual where
    s': "s' = s\<lparr>pdepfdata := pd, cell_residual := residual\<rparr>"
    and z: "well_block_zero (length (poreVolume (geo s))) (number_of_wells (wells s)) residual"
    by (rule assemble_InrE)
  from s' z show "numBlocks (cell_residual s') = 2"
    by (simp add: well_block_zero_def numBlocks_def)
  from s' z show "jac (cell_residual s') ! 1
        = zero_M (length (poreVolume (geo s))) (number_of_wells (wells s))"
    by (simp add: well_block_zero_def)
  from s' show "well_residual s' = well_residual s" by simp
next
  assume a: "ImpesTPFAAD_solve dt state well_state s = Inr (s'', state')"
  then obtain pd where
    asm: "ImpesTPFAAD_assemble dt state well_state (s\<lparr>pdepfdata := pd\<rparr>) = Inr s''"
    by (auto simp: ImpesTPFAAD_solve_def Let_def split: sum.splits if_splits prod.splits)
  then obtain pd' residual where
    s'': "s'' = s\<lparr>pdepfdata := pd', cell_residual := residual\<rparr>"
    and z: "well_block_zero (length (poreVolume (geo s))) (number_of_wells (wells s)) residual"
    by (rule assemble_InrE) simp_all
  from s'' z show "jac (cell_residual s'') ! 1
        = zero_M (length (poreVolume (geo s))) (number_of_wells (wells s))"
    by (simp add: well_block_zero_def)
  from s'' show "well_residual s'' = well_residual s" by simp
qed

theorem assemble_well_block_zero_witness:
  "ImpesTPFAAD_assemble 1 fixture_state \<lparr>bhp = [5]\<rparr>
     ((fixture_impes diagonal_solver)\<lparr>pdepfdata := (PressureDependentFluidData_init 1 fixture_fluid (\<lambda>k. 0))
            \<lparr>pd_kr := DerivedQuant_fill 1 1 (\<lambda>k. 1)\<rparr>\<rparr>) = Inr (fixture_assembled diagonal_solver) \<and>
   ImpesTPFAAD_solve 1 fixture_state \<lparr>bhp = [5]\<rparr> (fixture_impes diagonal_solver)
     = Inr (fixture_assembled diagonal_solver, fixture_state\<lparr>pressure := [34 / 3]\<rparr>) \<and>
   numBlocks (cell_residual (fixture_assembled diagonal_solver)) = 2 \<and>
   jac (cell_residual (fixture_assembled diagonal_solver)) ! 1 = zero_M 1 1 \<and>
   well_residual (fixture_assembled diagonal_solver) = ADB_null"
proof -
  let ?s = "fixture_impes diagonal_solver"
  let ?pd = "(PressureDependentFluidData_init 1 fixture_fluid (\<lambda>k. 0))
            \<lparr>pd_kr := DerivedQuant_fill 1 1 (\<lambda>k. 1)\<rparr>"
  have solve: "ImpesTPFAAD_solve 1 fixture_state \<lparr>bhp = [5]\<rparr> ?s
     = Inr (fixture_assembled diagonal_solver, fixture_state\<lparr>pressure := [34 / 3]\<rparr>)"
  proof -
    have ls: "linsolver (fixture_assembled diagonal_solver) = diagonal_solver"
      "number_of_cells (grid (fixture_assembled diagonal_solver)) = 1"
      "jac (cell_residual (fixture_assembled diagonal_solver)) \<noteq> []"
      by (simp_all add: fixture_assembled_def impes_defs upt_rec)
    have pr: "pressure fixture_state = [10]"
      by (simp add: fixture_state_def)
    show ?thesis
      by (simp only: ImpesTPFAAD_solve_def fixture_computeSatQuant fixture_assemble sum.case)
         (simp add: ls pr diagonal_solver_def fixture_residual)
  qed
  have s: "length (poreVolume (geo (?s\<lparr>pdepfdata := ?pd\<rparr>))) = 1"
    "number_of_wells (wells (?s\<lparr>pdepfdata := ?pd\<rparr>)) = 1"
    "well_residual (?s\<lparr>pdepfdata := ?pd\<rparr>) = ADB_null"
    by (simp_all add: fixture_impes_def ImpesTPFAAD_init_def)
  have s0: "length (poreVolume (geo ?s)) = 1" "number_of_wells (wells ?s) = 1"
    "well_residual ?s = ADB_null"
    by (simp_all add: fixture_impes_def ImpesTPFAAD_init_def)
  from assemble_well_block_zero [of _ _ _ _ _ _ _ _ 1 fixture_state "\<lparr>bhp = [5]\<rparr>"
      "?s\<lparr>pdepfdata := ?pd\<rparr>" "fixture_assembled diagonal_solver"
      "fixture_assembled diagonal_solver" "fixture_state\<lparr>pressure := [34 / 3]\<rparr>"]
    fixture_assemble [of diagonal_solver] s
  have 1: "numBlocks (cell_residual (fixture_assembled diagonal_solver)) = 2"
    "jac (cell_residual (fixture_assembled diagonal_solver)) ! 1 = zero_M 1 1"
    "well_residual (fixture_assembled diagonal_solver) = ADB_null"
    by simp_all
  from assemble_well_block_zero [of _ _ _ _ _ _ _ _ 1 fixture_state "\<lparr>bhp = [5]\<rparr>"
      ?s "fixture_assembled diagonal_solver"
      "fixture_assembled diagonal_solver" "fixture_state\<lparr>pressure := [34 / 3]\<rparr>"]
    solve s0
  have 2: "well_residual (fixture_assembled diagonal_solver) = ADB_null"
    by simp
  show ?thesis
    using fixture_assemble [of diagonal_solver] solve 1 2 by simp
qed

subsection \<open>The linear solve\<close>

text \<open>
  C4. Let the saturation-dependent update and the assembly of \<^verbatim>\<open>solve\<close> succeed, and
  let the backend solver, applied once to the pressure block of the Jacobian of the
  cell residual and to the value of the residual, answer with the flag \<open>conv\<close> and the
  solution \<open>dp\<close>. If \<open>conv\<close> holds, \<^verbatim>\<open>solve\<close> returns with every cell pressure \<open>c\<close>
  replaced by \<open>p\<^sub>c - dp\<^sub>c\<close>. If not, \<^verbatim>\<open>solve\<close> ends with the run-time error raised by
  \<^verbatim>\<open>THROW\<close>, and the state is the state passed in: the pressure is unchanged, and no
  second solve or other fallback takes place.
\<close>

theorem solve_converged_or_fatal:
  assumes sat: "computeSatQuant state (pdepfdata s) = Inr pd"
    and asm: "ImpesTPFAAD_assemble dt state well_state (s\<lparr>pdepfdata := pd\<rparr>) = Inr s1"
    and ls: "linsolver s (number_of_cells (grid s)) (jac (cell_residual s1) ! 0)
               (val (cell_residual s1)) = (conv, dp)"
  shows "(conv \<longrightarrow>
           ImpesTPFAAD_solve dt state well_state s =
             Inr (s1, state\<lparr>pressure :=
                        map (\<lambda>c. pressure state ! c - dp c) [0..<number_of_cells (grid s)]
                        @ drop (number_of_cells (grid s)) (pressure state)\<rparr>)) \<and>
         (\<not> conv \<longrightarrow>
           ImpesTPFAAD_solve dt state well_state s =
             Inl (RuntimeError ''ImpesTPFAAD::solve(): Linear solver convergence failure.'',
                  state))"
proof -
  let ?nc = "number_of_cells (grid s)"
  from asm obtain pd' residual where
    s1: "s1 = s\<lparr>pdepfdata := pd', cell_residual := residual\<rparr>"
    and z: "well_block_zero (length (poreVolume (geo s))) (number_of_wells (wells s)) residual"
    and len: "?nc \<le> length (pressure state)"
    by (rule assemble_InrE) simp_all
  have nonempty: "jac (cell_residual s1) \<noteq> []"
    using s1 z by (auto simp: well_block_zero_def)
  have frame: "grid s1 = grid s" "linsolver s1 = linsolver s"
    using s1 by simp_all
  have take_nth: "map (\<lambda>c. take ?nc (pressure state) ! c - dp c) [0..<?nc]
      = map (\<lambda>c. pressure state ! c - dp c) [0..<?nc]"
    by simp
  show ?thesis
    using sat asm ls nonempty len frame
    by (simp add: ImpesTPFAAD_solve_def Let_def take_nth)
qed

theorem solve_converged_or_fatal_witness:
  "map_sum id snd (ImpesTPFAAD_solve 1 fixture_state \<lparr>bhp = [5]\<rparr> (fixture_impes diagonal_solver))
     = Inr (fixture_state\<lparr>pressure := [34 / 3]\<rparr>) \<and>
   ImpesTPFAAD_solve 1 fixture_state \<lparr>bhp = [5]\<rparr> (fixture_impes failing_solver)
     = Inl (RuntimeError ''ImpesTPFAAD::solve(): Linear solver convergence failure.'',
            fixture_state)"
proof -
  have good: "linsolver (fixture_impes diagonal_solver)
      (number_of_cells (grid (fixture_impes diagonal_solver)))
      (jac (cell_residual (fixture_assembled diagonal_solver)) ! 0)
      (val (cell_residual (fixture_assembled diagonal_solver)))
     = (True, \<lambda>i. val (cell_residual (fixture_assembled diagonal_solver)) ! i
                   / coeff (jac (cell_residual (fixture_assembled diagonal_solver)) ! 0) i i)"
    by (simp add: fixture_impes_def ImpesTPFAAD_init_def diagonal_solver_def)
  have bad: "linsolver (fixture_impes failing_solver)
      (number_of_cells (grid (fixture_impes failing_solver)))
      (jac (cell_residual (fixture_assembled failing_solver)) ! 0)
      (val (cell_residual (fixture_assembled failing_solver)))
     = (False, \<lambda>i. 0)"
    by (simp add: fixture_impes_def ImpesTPFAAD_init_def failing_solver_def)
  have pr: "pressure fixture_state = [10]"
    by (simp add: fixture_state_def)
  have nc: "number_of_cells (grid (fixture_impes ls)) = 1" for ls
    by (simp add: fixture_impes_def ImpesTPFAAD_init_def)
  from solve_converged_or_fatal [OF fixture_computeSatQuant fixture_assemble good]
       solve_converged_or_fatal [OF fixture_computeSatQuant fixture_assemble bad]
  show ?thesis
    by (simp add: nc fixture_residual pr)
qed

subsection \<open>The property adapter\<close>

lemma wf_pdepfdata_init: "wf_pdepfdata (PressureDependentFluidData_init nc fluid junk)"
  by (simp add: wf_pdepfdata_def PressureDependentFluidData_init_def DerivedQuant_fill_def Let_def)

lemma wf_pdepfdata_computeSatQuant:
  "computeSatQuant state d = Inr d' \<Longrightarrow> wf_pdepfdata d \<Longrightarrow> wf_pdepfdata d'"
  by (auto simp: computeSatQuant_def wf_pdepfdata_def DerivedQuant_fill_def Let_def split: if_splits)

lemma wf_pdepfdata_computePressQuant:
  "computePressQuant state d = Inr d' \<Longrightarrow> wf_pdepfdata d \<Longrightarrow> wf_pdepfdata d'"
  by (auto simp: computePressQuant_def wf_pdepfdata_def DerivedQuant_fill_def Let_def
      split: if_splits prod.splits)

lemma diagonal_column_in_range:
  assumes "0 \<le> phase" and "phase < (np::int)"
  shows "nat (phase * (np + 1)) < nat (np * np)"
proof -
  have "phase * (np + 1) \<le> (np - 1) * (np + 1)"
    using assms by (intro mult_right_mono) auto
  also have "\<dots> < np * np" by (simp add: algebra_simps)
  finally show ?thesis using assms by simp
qed

lemma blockPattern_constant [simp]: "blockPattern (ADB_constant v bpat) = bpat"
  by (simp add: blockPattern_def ADB_constant_def zero_M_def comp_def)

lemma val_constant [simp]: "val (ADB_constant v bpat) = v"
  by (simp add: ADB_constant_def)

text \<open>
  C5, as amended. For a phase index in range and a pressure quantity \<open>p\<close> over two
  blocks, the first of the size of the cell count, \<^verbatim>\<open>fvf(phase, p)\<close> returns the value
  \<open>1 / A\<close> per cell, where \<open>A\<close> is the stored entry for the phase. Its Jacobian block
  with respect to the cell pressures is diagonal with the entries \<open>- dA / A\<^sup>2\<close>, the
  derivative of \<open>1 / A\<close> by the quotient rule from the stored derivative \<open>dA\<close>; its
  block with respect to the other block is zero.
\<close>

theorem fvf_value_and_jacobian:
  assumes wf: "wf_pdepfdata d" and ph: "0 \<le> phase" "phase < pd_np d"
    and blocks: "numBlocks p = 2" and pat: "blockPattern p ! 0 = pd_nc d"
  shows "\<exists>r. fvf d phase p = Inr r \<and>
           val r = map (\<lambda>c. 1 / stored_A d phase c) [0..<pd_nc d] \<and>
           numBlocks r = 2 \<and>
           rows (jac r ! 0) = pd_nc d \<and> cols (jac r ! 0) = pd_nc d \<and>
           (\<forall>i < pd_nc d. \<forall>j < pd_nc d.
              coeff (jac r ! 0) i j =
                (if i = j then - stored_dA d phase i / (stored_A d phase i * stored_A d phase i)
                 else 0)) \<and>
           jac r ! 1 = zero_M (pd_nc d) (blockPattern p ! 1)"
proof -
  let ?nc = "pd_nc d" and ?col = "phase * (pd_np d + 1)"
  let ?A = "map (stored_A d phase) [0..<?nc]" and ?dA = "map (stored_dA d phase) [0..<?nc]"
  have col: "nat ?col < nat (pd_np d * pd_np d)" "0 \<le> ?col"
    using diagonal_column_in_range [OF ph] ph by simp_all
  have A: "block_col (pd_A d) ?col ?nc = Inr ?A"
    using wf col by (simp add: block_col_def wf_pdepfdata_def stored_A_def [abs_def])
  have dA: "block_col (pd_dA d) ?col ?nc = Inr ?dA"
    using wf col by (simp add: block_col_def wf_pdepfdata_def stored_dA_def [abs_def])
  let ?f = "\<lparr>val = ?A, jac = [spdiag ?dA, zero_M ?nc (blockPattern p ! 1)]\<rparr>"
  have f: "ADB_function ?A [spdiag ?dA, zero_M (length ?A) (blockPattern p ! 1)] = Inr ?f"
    by (simp add: ADB_function_def spdiag_def zero_M_def)
  have one: "length (pd_one d) = ?nc" "\<forall>c < ?nc. pd_one d ! c = 1"
    using wf by (simp_all add: wf_pdepfdata_def)
  have comp: "compatible (ADB_constant (pd_one d) (blockPattern ?f)) ?f"
    using one by (simp add: compatible_def) (simp add: ADB_constant_def spdiag_def zero_M_def)
  define r where "r = \<lparr>val = map2 (/) (pd_one d) ?A,
      jac = map2 (\<lambda>Ja Jb. diag_mul (map (\<lambda>x. 1 / (x * x)) ?A)
                             (sub_M (diag_mul ?A Ja) (diag_mul (pd_one d) Jb)))
                 (jac (ADB_constant (pd_one d) (blockPattern ?f))) (jac ?f)\<rparr>"
  have div: "V_div_ADB (pd_one d) ?f = Inr r"
    using comp by (simp add: V_div_ADB_def ADB_div_def r_def)
  have res: "fvf d phase p = Inr r"
    using ph A dA f div blocks pat
    by (simp add: fvf_def and_then_def Let_def spdiag_def)
  have v: "val r = map (\<lambda>c. 1 / stored_A d phase c) [0..<?nc]"
    using one by (auto simp: r_def list_eq_iff_nth_eq)
  have j: "jac r = [diag_mul (map (\<lambda>x. 1 / (x * x)) ?A)
                      (sub_M (diag_mul ?A (zero_M ?nc ?nc)) (diag_mul (pd_one d) (spdiag ?dA))),
                    diag_mul (map (\<lambda>x. 1 / (x * x)) ?A)
                      (sub_M (diag_mul ?A (zero_M ?nc (blockPattern p ! 1)))
                             (diag_mul (pd_one d) (zero_M ?nc (blockPattern p ! 1))))]"
    using one by (simp add: r_def ADB_constant_def blockPattern_def spdiag_def zero_M_def)
  have j1: "jac r ! 1 = zero_M ?nc (blockPattern p ! 1)"
    by (simp add: j diag_mul_def sub_M_def zero_M_def)
  have j0: "rows (jac r ! 0) = ?nc" "cols (jac r ! 0) = ?nc"
    "\<forall>i < ?nc. \<forall>j < ?nc. coeff (jac r ! 0) i j =
       (if i = j then - stored_dA d phase i / (stored_A d phase i * stored_A d phase i) else 0)"
    using one by (simp_all add: j diag_mul_def sub_M_def zero_M_def spdiag_def)
  show ?thesis
    using res v j0 j1 by (simp add: numBlocks_def j)
qed

theorem fvf_value_and_jacobian_witness:
  "\<exists>r. fvf fixture_pdepfdata 0 (ADB_variables [[10], [5]] ! 0) = Inr r \<and>
        val r = [1 / 2] \<and> numBlocks r = 2 \<and>
        rows (jac r ! 0) = 1 \<and> cols (jac r ! 0) = 1 \<and>
        coeff (jac r ! 0) 0 0 = - (1 / 8) \<and>
        jac r ! 1 = zero_M 1 1"
proof -
  have wf: "wf_pdepfdata fixture_pdepfdata"
    by (simp add: wf_pdepfdata_def fixture_pdepfdata_def PressureDependentFluidData_init_def
        DerivedQuant_fill_def fixture_fluid_def)
  have ph: "(0::int) \<le> 0" "0 < pd_np fixture_pdepfdata"
    by (simp_all add: fixture_pdepfdata_def PressureDependentFluidData_init_def fixture_fluid_def)
  have p: "numBlocks (ADB_variables [[10], [5]] ! 0) = 2"
    "blockPattern (ADB_variables [[10], [5]] ! 0) ! 0 = pd_nc fixture_pdepfdata"
    "blockPattern (ADB_variables [[10], [5]] ! 0) ! 1 = 1"
    by (simp_all add: fixture_pdepfdata_def PressureDependentFluidData_init_def fixture_fluid_def
        numBlocks_def blockPattern_def ADB_variables_def ADB_variable_def upt_rec
        identity_M_def zero_M_def)
  have st: "stored_A fixture_pdepfdata 0 0 = 2" "stored_dA fixture_pdepfdata 0 0 = 1 / 2"
    "pd_nc fixture_pdepfdata = 1"
    by (simp_all add: stored_A_def stored_dA_def fixture_pdepfdata_def
        PressureDependentFluidData_init_def DerivedQuant_fill_def fixture_fluid_def)
  from fvf_value_and_jacobian [OF wf ph p(1,2)] p(3)
  show ?thesis by (simp add: st)
qed

text \<open>
  C5 as stated fails: for \<open>A = 2\<close> and stored derivative \<open>dA = 1/2\<close> the pressure block
  of the Jacobian of the result has the diagonal entry \<open>- 1/8\<close>, not the entry \<open>1/2\<close>
  of the stored derivative promoted to a diagonal matrix.
\<close>

theorem fvf_jacobian_counterexample:
  "map_sum id (\<lambda>r. coeff (jac r ! 0) 0 0)
     (fvf fixture_pdepfdata 0 (ADB_variables [[10], [5]] ! 0)) = Inr (- (1 / 8)) \<and>
   block_col (pd_dA fixture_pdepfdata) 0 1 = Inr [1 / 2] \<and>
   coeff (spdiag [1 / 2]) 0 0 = 1 / 2"
  by (simp add: impes_defs upt_rec)

lemma block_col_in_range:
  "0 \<le> c \<Longrightarrow> nat c < dq_cols Q \<Longrightarrow> n \<le> dq_rows Q \<Longrightarrow>
     \<exists>v. block_col Q c n = Inr v \<and> length v = n"
  by (simp add: block_col_def)

lemma fvf_block_pattern:
  assumes wf: "wf_pdepfdata d" and ph: "0 \<le> phase" "phase < pd_np d"
  shows "(numBlocks p = 2 \<and> blockPattern p ! 0 = pd_nc d \<longrightarrow> (\<exists>r. fvf d phase p = Inr r)) \<and>
         (\<not> (numBlocks p = 2 \<and> blockPattern p ! 0 = pd_nc d) \<longrightarrow>
            fvf d phase p = Inl AssertionFailed)"
proof -
  let ?col = "phase * (pd_np d + 1)"
  have col: "0 \<le> ?col" "nat ?col < dq_cols (pd_A d)" "nat ?col < dq_cols (pd_dA d)"
    using diagonal_column_in_range [OF ph] ph wf by (simp_all add: wf_pdepfdata_def)
  have rws: "pd_nc d \<le> dq_rows (pd_A d)" "pd_nc d \<le> dq_rows (pd_dA d)"
    using wf by (simp_all add: wf_pdepfdata_def)
  obtain A where A: "block_col (pd_A d) ?col (pd_nc d) = Inr A" "length A = pd_nc d"
    using block_col_in_range [OF col(1,2) rws(1)] by blast
  obtain dA where dA: "block_col (pd_dA d) ?col (pd_nc d) = Inr dA" "length dA = pd_nc d"
    using block_col_in_range [OF col(1,3) rws(2)] by blast
  let ?f = "\<lparr>val = A, jac = [spdiag dA, zero_M (length A) (blockPattern p ! 1)]\<rparr>"
  have f: "ADB_function A [spdiag dA, zero_M (length A) (blockPattern p ! 1)] = Inr ?f"
    using A(2) dA(2) by (simp add: ADB_function_def spdiag_def zero_M_def)
  have one: "length (pd_one d) = pd_nc d"
    using wf by (simp add: wf_pdepfdata_def)
  have comp: "compatible (ADB_constant (pd_one d) (blockPattern ?f)) ?f"
    using one A(2) dA(2)
    by (simp add: compatible_def) (simp add: ADB_constant_def spdiag_def zero_M_def)
  then have div: "\<exists>r. V_div_ADB (pd_one d) ?f = Inr r"
    by (simp add: V_div_ADB_def ADB_div_def)
  show ?thesis
    using ph A dA f div
    by (auto simp: fvf_def and_then_def Let_def spdiag_def)
qed

lemma phaseViscosity_block_pattern:
  assumes wf: "wf_pdepfdata d" and ph: "0 \<le> phase" "phase < pd_np d"
  shows "(numBlocks p = 2 \<and> blockPattern p ! 0 = pd_nc d \<longrightarrow>
            (\<exists>r. phaseViscosity d phase p = Inr r)) \<and>
         (\<not> (numBlocks p = 2 \<and> blockPattern p ! 0 = pd_nc d) \<longrightarrow>
            phaseViscosity d phase p = Inl AssertionFailed)"
proof -
  have col: "nat phase < dq_cols (pd_mu d)" "nat phase < dq_cols (pd_dmu d)"
    using ph wf by (simp_all add: wf_pdepfdata_def)
  have rws: "pd_nc d \<le> dq_rows (pd_mu d)" "pd_nc d \<le> dq_rows (pd_dmu d)"
    using wf by (simp_all add: wf_pdepfdata_def)
  obtain mu where mu: "block_col (pd_mu d) phase (pd_nc d) = Inr mu" "length mu = pd_nc d"
    using block_col_in_range [OF ph(1) col(1) rws(1)] by blast
  obtain dmu where dmu: "block_col (pd_dmu d) phase (pd_nc d) = Inr dmu" "length dmu = pd_nc d"
    using block_col_in_range [OF ph(1) col(2) rws(2)] by blast
  have f: "\<exists>r. ADB_function mu [spdiag dmu, zero_M (length mu) (blockPattern p ! 1)] = Inr r"
    using mu(2) dmu(2) by (simp add: ADB_function_def spdiag_def zero_M_def)
  show ?thesis
    using ph mu dmu f
    by (auto simp: phaseViscosity_def and_then_def Let_def spdiag_def)
qed

lemma phaseRelPerm_range:
  assumes wf: "wf_pdepfdata d"
  shows "(\<not> (0 \<le> phase \<and> phase < pd_np d) \<longrightarrow> phaseRelPerm d phase = Inl AssertionFailed) \<and>
         (0 \<le> phase \<and> phase < pd_np d \<longrightarrow> (\<exists>kr. phaseRelPerm d phase = Inr kr))"
  using wf by (auto simp: phaseRelPerm_def block_col_def wf_pdepfdata_def)

text \<open>
  C9, as amended. For an adapter object as its constructor and its two refresh
  operations leave it: called with a phase index outside \<open>[0, numPhases)\<close>, each of
  \<^verbatim>\<open>fvf\<close>, \<^verbatim>\<open>phaseRelPerm\<close> and \<^verbatim>\<open>phaseViscosity\<close> stops at an assertion (the first and the
  last at their own, \<^verbatim>\<open>phaseRelPerm\<close> at the range assertion of \<^verbatim>\<open>block()\<close>). With the
  phase index in range \<^verbatim>\<open>phaseRelPerm\<close> returns; \<^verbatim>\<open>fvf\<close> and \<^verbatim>\<open>phaseViscosity\<close> return when
  the pressure quantity has two blocks, the first of the size of the cell count, and
  otherwise stop at their assertions on the block pattern.
\<close>

theorem phase_index_contract:
  assumes wf: "wf_pdepfdata d"
  shows "(\<not> (0 \<le> phase \<and> phase < pd_np d) \<longrightarrow>
            fvf d phase p = Inl AssertionFailed \<and>
            phaseRelPerm d phase = Inl AssertionFailed \<and>
            phaseViscosity d phase p = Inl AssertionFailed) \<and>
         (0 \<le> phase \<and> phase < pd_np d \<longrightarrow>
            (\<exists>kr. phaseRelPerm d phase = Inr kr) \<and>
            (numBlocks p = 2 \<and> blockPattern p ! 0 = pd_nc d \<longrightarrow>
               (\<exists>r. fvf d phase p = Inr r) \<and> (\<exists>r. phaseViscosity d phase p = Inr r)) \<and>
            (\<not> (numBlocks p = 2 \<and> blockPattern p ! 0 = pd_nc d) \<longrightarrow>
               fvf d phase p = Inl AssertionFailed \<and>
               phaseViscosity d phase p = Inl AssertionFailed))"
proof (intro conjI impI)
  assume out: "\<not> (0 \<le> phase \<and> phase < pd_np d)"
  then show "fvf d phase p = Inl AssertionFailed"
    by (auto simp: fvf_def)
  from out show "phaseViscosity d phase p = Inl AssertionFailed"
    by (auto simp: phaseViscosity_def)
  from out show "phaseRelPerm d phase = Inl AssertionFailed"
    using phaseRelPerm_range [OF wf, of phase] by simp
next
  assume "0 \<le> phase \<and> phase < pd_np d"
  then show "\<exists>kr. phaseRelPerm d phase = Inr kr"
    using phaseRelPerm_range [OF wf, of phase] by simp
next
  assume "0 \<le> phase \<and> phase < pd_np d" and "numBlocks p = 2 \<and> blockPattern p ! 0 = pd_nc d"
  then show "\<exists>r. fvf d phase p = Inr r" "\<exists>r. phaseViscosity d phase p = Inr r"
    using fvf_block_pattern [OF wf, of phase p] phaseViscosity_block_pattern [OF wf, of phase p]
    by simp_all
next
  assume "0 \<le> phase \<and> phase < pd_np d" and "\<not> (numBlocks p = 2 \<and> blockPattern p ! 0 = pd_nc d)"
  then show "fvf d phase p = Inl AssertionFailed" "phaseViscosity d phase p = Inl AssertionFailed"
    using fvf_block_pattern [OF wf, of phase p] phaseViscosity_block_pattern [OF wf, of phase p]
    by simp_all
qed

theorem phase_index_contract_witness:
  "fvf fixture_pdepfdata 1 (ADB_variables [[10], [5]] ! 0) = Inl AssertionFailed \<and>
   phaseRelPerm fixture_pdepfdata 1 = Inl AssertionFailed \<and>
   phaseViscosity fixture_pdepfdata 1 (ADB_variables [[10], [5]] ! 0) = Inl AssertionFailed \<and>
   (\<exists>kr. phaseRelPerm fixture_pdepfdata 0 = Inr kr) \<and>
   (\<exists>r. fvf fixture_pdepfdata 0 (ADB_variables [[10], [5]] ! 0) = Inr r) \<and>
   (\<exists>r. phaseViscosity fixture_pdepfdata 0 (ADB_variables [[10], [5]] ! 0) = Inr r) \<and>
   fvf fixture_pdepfdata 0 (ADB_constant [10] [1]) = Inl AssertionFailed \<and>
   phaseViscosity fixture_pdepfdata 0 (ADB_constant [10] [1]) = Inl AssertionFailed"
proof -
  have wf: "wf_pdepfdata fixture_pdepfdata"
    by (simp add: wf_pdepfdata_def fixture_pdepfdata_def PressureDependentFluidData_init_def
        DerivedQuant_fill_def fixture_fluid_def)
  have np: "pd_np fixture_pdepfdata = 1" "pd_nc fixture_pdepfdata = 1"
    by (simp_all add: fixture_pdepfdata_def PressureDependentFluidData_init_def fixture_fluid_def)
  have two: "numBlocks (ADB_variables [[10], [5]] ! 0) = 2"
    "blockPattern (ADB_variables [[10], [5]] ! 0) ! 0 = 1"
    by (simp_all add: numBlocks_def blockPattern_def ADB_variables_def ADB_variable_def upt_rec
        identity_M_def zero_M_def)
  have one: "numBlocks (ADB_constant [10] [1]) \<noteq> 2"
    by (simp add: numBlocks_def ADB_constant_def)
  from phase_index_contract [OF wf, of 1 "ADB_variables [[10], [5]] ! 0"]
       phase_index_contract [OF wf, of 0 "ADB_variables [[10], [5]] ! 0"]
       phase_index_contract [OF wf, of 0 "ADB_constant [10] [1]"]
       two one
  show ?thesis by (simp add: np)
qed

text \<open>
  C9 as stated fails: with the phase index 0 in range, \<^verbatim>\<open>fvf\<close> on a pressure quantity
  with one block stops at its assertion \<^verbatim>\<open>p.numBlocks() == 2\<close>.
\<close>

theorem phase_in_range_assertion_counterexample:
  "0 \<le> (0::int) \<and> 0 < pd_np fixture_pdepfdata \<and>
   fvf fixture_pdepfdata 0 (ADB_constant [10] [1]) = Inl AssertionFailed"
  by (simp add: impes_defs)

end
